theory Spec2Isabelle
  imports Complex_Main
begin

text \<open>
  A verification of the ALSAM XML codec of \<^verbatim>\<open>alsam-xml.js\<close>: \<^verbatim>\<open>LoadXML\<close> decodes
  the markup of a build layer into a \<^verbatim>\<open>Layer\<close>, and \<^verbatim>\<open>ExportXML\<close> encodes a
  \<^verbatim>\<open>Layer\<close> as markup. The repository holds several variants of the decoder; the model follows the
  TypeScript sources \<^verbatim>\<open>src/index.ts\<close>, \<^verbatim>\<open>src/validation.ts\<close> and \<^verbatim>\<open>src/types.ts\<close>,
  the only variant with a complete encoder.
\<close>

section \<open>The document tree\<close>

text \<open>
  The decoder of \<^verbatim>\<open>src/index.ts\<close> works on the DOM of the parsed text. A node is an
  element (qualified name and children in document order) or character data. The
  document node itself is an element named \<^verbatim>\<open>#document\<close> whose only element child is
  the root.
\<close>

datatype node = Element string "node list" | Text string

fun tagName :: "node \<Rightarrow> string" where
  "tagName (Element n kids) = n"
| "tagName (Text s) = ''#text''"

text \<open>\<^verbatim>\<open>node.textContent\<close>: the character data below the node, concatenated.\<close>

fun textContent :: "node \<Rightarrow> string" where
  "textContent (Text s) = s"
| "textContent (Element n kids) = concat (map textContent kids)"

text \<open>The elements of a subtree in document order (preorder), the subtree's root first.\<close>

fun elements :: "node \<Rightarrow> node list" where
  "elements (Text s) = []"
| "elements (Element n kids) = Element n kids # concat (map elements kids)"

text \<open>The descendant elements of a node in document order; the node itself is not one.\<close>

definition descendants :: "node \<Rightarrow> node list" where
  "descendants xmlNode =
     (case xmlNode of Element n kids \<Rightarrow> concat (map elements kids) | Text s \<Rightarrow> [])"

text \<open>
  \<^verbatim>\<open>xmlNode.getElementsByTagName(tagName)\<close>: every descendant element with that
  qualified name (every descendant element for \<^verbatim>\<open>*\<close>), in document order.
\<close>

definition getElementsByTagName :: "node \<Rightarrow> string \<Rightarrow> node list" where
  "getElementsByTagName xmlNode t =
     filter (\<lambda>e. t = ''*'' \<or> tagName e = t) (descendants xmlNode)"

section \<open>JavaScript values\<close>

text \<open>
  The static types of \<^verbatim>\<open>types.ts\<close> are erased at run time, so a scalar field holds a
  JavaScript value: a string or a number. A number is represented by the rational it
  denotes (the rounding of IEEE doubles is not part of the model), \<open>JNaN\<close> is
  not-a-number, and \<^verbatim>\<open>undefined\<close>/\<^verbatim>\<open>null\<close> are \<open>None\<close> of an option.
\<close>

datatype jsval = JString string | JNumber rat | JNaN

text \<open>
  The exceptions: an \<^verbatim>\<open>AssertionError\<close> of the \<^verbatim>\<open>assert\<close> module with its message,
  and the \<^verbatim>\<open>TypeError\<close> of a property read on \<^verbatim>\<open>undefined\<close>, whose message is the
  engine's and is abbreviated here.
\<close>

datatype error = AssertionError string | TypeError string

type_synonym 'a result = "error + 'a"

text \<open>Sequencing of statements that may throw: the first exception ends the evaluation.\<close>

definition andThen :: "'a result \<Rightarrow> ('a \<Rightarrow> 'b result) \<Rightarrow> 'b result" where
  "andThen r f = (case r of Inl e \<Rightarrow> Inl e | Inr v \<Rightarrow> f v)"

text \<open>\<^verbatim>\<open>assert(cond, message)\<close> of the \<^verbatim>\<open>assert\<close> module.\<close>

definition assert :: "bool \<Rightarrow> string \<Rightarrow> unit result" where
  "assert cond msg = (if cond then Inr () else Inl (AssertionError msg))"

text \<open>A loop that pushes one decoded object per element and stops at the first throw.\<close>

fun forEach :: "('a \<Rightarrow> 'b result) \<Rightarrow> 'a list \<Rightarrow> 'b list result" where
  "forEach f [] = Inr []"
| "forEach f (x # xs) =
     andThen (f x) (\<lambda>y. andThen (forEach f xs) (\<lambda>ys. Inr (y # ys)))"

subsection \<open>Digits and decimal literals\<close>

definition is_digit :: "char \<Rightarrow> bool" where
  "is_digit c = (c \<in> set ''0123456789'')"

definition digit_val :: "char \<Rightarrow> nat" where
  "digit_val c = of_char c - 48"

definition nat_of_digits :: "string \<Rightarrow> nat" where
  "nat_of_digits ds = foldl (\<lambda>a c. 10 * a + digit_val c) 0 ds"

definition all_digits :: "string \<Rightarrow> bool" where
  "all_digits s = list_all is_digit s"

text \<open>The sign prefix of a literal: whether it is negative, and the rest.\<close>

fun strip_sign :: "string \<Rightarrow> bool \<times> string" where
  "strip_sign [] = (False, [])"
| "strip_sign (c # cs) =
     (if c = CHR ''-'' then (True, cs) else if c = CHR ''+'' then (False, cs)
      else (False, c # cs))"

text \<open>
  \<^verbatim>\<open>const isIntegerRegex = /^[0-9]*$/\<close> and
  \<^verbatim>\<open>const isFloatRegex = /^[+-]?([0-9]*[.])?[0-9]+$/\<close> of \<^verbatim>\<open>validation.ts\<close>,
  as the predicates \<^verbatim>\<open>regex.test(value)\<close> computes.
\<close>

definition isIntegerRegex :: "string \<Rightarrow> bool" where
  "isIntegerRegex s = all_digits s"

definition isFloatRegex :: "string \<Rightarrow> bool" where
  "isFloatRegex s =
     (let r = snd (strip_sign s); pre = takeWhile is_digit r; post = dropWhile is_digit r
      in if post = [] then pre \<noteq> []
         else hd post = CHR ''.'' \<and> tl post \<noteq> [] \<and> all_digits (tl post))"

text \<open>The date test of \<^verbatim>\<open>getHeader\<close>: \<^verbatim>\<open>/^\d{4}-\d{2}-\d{2}$/\<close>.\<close>

definition dateRegex :: "string \<Rightarrow> bool" where
  "dateRegex s =
     (case s of
        [y1, y2, y3, y4, d1, m1, m2, d2, a1, a2] \<Rightarrow>
          is_digit y1 \<and> is_digit y2 \<and> is_digit y3 \<and> is_digit y4 \<and> d1 = CHR ''-'' \<and>
          is_digit m1 \<and> is_digit m2 \<and> d2 = CHR ''-'' \<and> is_digit a1 \<and> is_digit a2
      | _ \<Rightarrow> False)"

text \<open>
  The number a string converts to (\<^verbatim>\<open>ToNumber\<close>, which \<^verbatim>\<open>parseFloat\<close> and
  \<^verbatim>\<open>parseInt\<close> agree with on the strings the two regular expressions accept):
  an optional sign, digits, and an optional point with digits; the empty string is 0.
  \<open>None\<close> is not-a-number. Exponents, blanks, radix prefixes and \<^verbatim>\<open>Infinity\<close>, which
  no validated field can hold, are not modelled and read as not-a-number.
\<close>

definition ToNumber :: "string \<Rightarrow> rat option" where
  "ToNumber s =
     (if s = [] then Some 0
      else
        let neg = fst (strip_sign s); r = snd (strip_sign s);
            ip = takeWhile is_digit r; post = dropWhile is_digit r;
            sgn = (if neg then - 1 else 1)
        in if post = [] then (if ip = [] then None else Some (sgn * of_nat (nat_of_digits ip)))
           else if hd post = CHR ''.'' \<and> all_digits (tl post) \<and> (ip \<noteq> [] \<or> tl post \<noteq> [])
           then Some (sgn * (of_nat (nat_of_digits ip)
                  + of_nat (nat_of_digits (tl post)) / 10 ^ length (tl post)))
           else None)"

definition parseFloat :: "string \<Rightarrow> jsval" where
  "parseFloat s = (case ToNumber s of None \<Rightarrow> JNaN | Some q \<Rightarrow> if s = [] then JNaN else JNumber q)"

definition parseInt :: "string \<Rightarrow> jsval" where
  "parseInt s = (if s \<noteq> [] \<and> all_digits s then JNumber (of_nat (nat_of_digits s)) else JNaN)"

text \<open>
  \<^verbatim>\<open>Number::toString\<close> in plain decimal notation: sign, integer digits, and the
  fraction digits when there are any (at most 20 are produced). This is what JavaScript
  prints for the decimals of magnitude between 1e-6 and 1e21 that round-trip.
\<close>

fun digits_of :: "nat \<Rightarrow> nat \<Rightarrow> string" where
  "digits_of 0 n = []"
| "digits_of (Suc fuel) n =
     (if n < 10 then [char_of (48 + n)]
      else digits_of fuel (n div 10) @ [char_of (48 + n mod 10)])"

fun fraction_digits :: "nat \<Rightarrow> rat \<Rightarrow> string" where
  "fraction_digits 0 q = []"
| "fraction_digits (Suc fuel) q =
     (if q = 0 then []
      else char_of (48 + nat \<lfloor>q * 10\<rfloor>) # fraction_digits fuel (q * 10 - of_int \<lfloor>q * 10\<rfloor>))"

definition Number_toString :: "rat \<Rightarrow> string" where
  "Number_toString q =
     (let a = \<bar>q\<bar>; ip = nat \<lfloor>a\<rfloor>; fr = a - of_int \<lfloor>a\<rfloor>
      in (if q < 0 then ''-'' else []) @ digits_of (Suc ip) ip
         @ (if fr = 0 then [] else CHR ''.'' # fraction_digits 20 fr))"

text \<open>String conversion, as in a template literal \<^verbatim>\<open>${v}\<close> or \<^verbatim>\<open>regex.test(v)\<close>.\<close>

fun ToString :: "jsval \<Rightarrow> string" where
  "ToString (JString s) = s"
| "ToString (JNumber q) = Number_toString q"
| "ToString JNaN = ''NaN''"

text \<open>Number conversion of a value, and the comparisons with a number literal.\<close>

fun numberOf :: "jsval \<Rightarrow> rat option" where
  "numberOf (JString s) = ToNumber s"
| "numberOf (JNumber q) = Some q"
| "numberOf JNaN = None"

definition js_gt :: "jsval \<Rightarrow> rat \<Rightarrow> bool" where
  "js_gt v c = (case numberOf v of None \<Rightarrow> False | Some q \<Rightarrow> q > c)"

definition js_ge :: "jsval \<Rightarrow> rat \<Rightarrow> bool" where
  "js_ge v c = (case numberOf v of None \<Rightarrow> False | Some q \<Rightarrow> q \<ge> c)"

definition js_le :: "jsval \<Rightarrow> rat \<Rightarrow> bool" where
  "js_le v c = (case numberOf v of None \<Rightarrow> False | Some q \<Rightarrow> q \<le> c)"

text \<open>
  Truthiness, for \<^verbatim>\<open>!x\<close>: \<^verbatim>\<open>undefined\<close>, the empty string, 0 and NaN are falsy.
\<close>

fun truthy :: "jsval option \<Rightarrow> bool" where
  "truthy None = False"
| "truthy (Some (JString s)) = (s \<noteq> [])"
| "truthy (Some (JNumber q)) = (q \<noteq> 0)"
| "truthy (Some JNaN) = False"

section \<open>Field accessors (validation.ts)\<close>

datatype kind = Float | Integer

text \<open>
  \<^verbatim>\<open>validate(nodeName, value, type)\<close>: the lexical check for the requested kind;
  no check when the kind is \<^verbatim>\<open>undefined\<close>.
\<close>

definition validate :: "string \<Rightarrow> string \<Rightarrow> kind option \<Rightarrow> unit result" where
  "validate nodeName v ty =
     andThen (if ty = Some Float then assert (isFloatRegex v) (nodeName @ '' must be a float'')
              else Inr ())
       (\<lambda>_. if ty = Some Integer
             then assert (isIntegerRegex v) (nodeName @ '' must be an integer'')
             else Inr ())"

text \<open>\<^verbatim>\<open>cast(value, type)\<close>: the number the text denotes; \<^verbatim>\<open>undefined\<close> without a kind.\<close>

definition cast :: "string \<Rightarrow> kind option \<Rightarrow> jsval option" where
  "cast v ty =
     (if ty = Some Float then Some (parseFloat v)
      else if ty = Some Integer then Some (parseInt v)
      else None)"

text \<open>
  \<^verbatim>\<open>getOptionalValue\<close>: the first element with the tag; when it exists and its text is
  not empty, the text is validated, \<^verbatim>\<open>cast\<close> is called and its result dropped, and
  the text itself is returned. Otherwise \<^verbatim>\<open>undefined\<close>.
\<close>

definition getOptionalValue :: "node \<Rightarrow> string \<Rightarrow> kind option \<Rightarrow> jsval option result" where
  "getOptionalValue xmlNode t ty =
     (case getElementsByTagName xmlNode t of
        [] \<Rightarrow> Inr None
      | nd # _ \<Rightarrow>
          if textContent nd \<noteq> [] then
            andThen (validate t (textContent nd) ty)
              (\<lambda>_. let dropped = cast (textContent nd) ty in Inr (Some (JString (textContent nd))))
          else Inr None)"

definition getOptionalValueString :: "node \<Rightarrow> string \<Rightarrow> jsval option result" where
  "getOptionalValueString xmlNode t = getOptionalValue xmlNode t None"

definition getOptionalValueFloat :: "node \<Rightarrow> string \<Rightarrow> jsval option result" where
  "getOptionalValueFloat xmlNode t = getOptionalValue xmlNode t (Some Float)"

definition getOptionalValueInteger :: "node \<Rightarrow> string \<Rightarrow> jsval option result" where
  "getOptionalValueInteger xmlNode t = getOptionalValue xmlNode t (Some Integer)"

text \<open>
  \<^verbatim>\<open>getMandatoryValue\<close>: asserts that the element exists and that its text is not
  empty, validates the text, calls \<^verbatim>\<open>cast\<close> and drops its result, and returns the text.
\<close>

definition getMandatoryValue :: "node \<Rightarrow> string \<Rightarrow> kind option \<Rightarrow> jsval result" where
  "getMandatoryValue xmlNode t ty =
     (case getElementsByTagName xmlNode t of
        [] \<Rightarrow> Inl (AssertionError (''Tag '' @ t @ '' is mandatory.''))
      | nd # _ \<Rightarrow>
          andThen (assert (textContent nd \<noteq> []) (''INVALID SCHEMA: Empty <'' @ t @ ''> tag!''))
            (\<lambda>_. andThen (validate t (textContent nd) ty)
              (\<lambda>_. let dropped = cast (textContent nd) ty in Inr (JString (textContent nd)))))"

definition getMandatoryValueString :: "node \<Rightarrow> string \<Rightarrow> jsval result" where
  "getMandatoryValueString xmlNode t = getMandatoryValue xmlNode t None"

definition getMandatoryValueFloat :: "node \<Rightarrow> string \<Rightarrow> jsval result" where
  "getMandatoryValueFloat xmlNode t = getMandatoryValue xmlNode t (Some Float)"

definition getMandatoryValueInteger :: "node \<Rightarrow> string \<Rightarrow> jsval result" where
  "getMandatoryValueInteger xmlNode t = getMandatoryValue xmlNode t (Some Integer)"

section \<open>The data model (types.ts)\<close>

record Header =
  americaMakesSchemaVersion :: jsval
  layerNum :: "jsval option"
  layerThickness :: jsval
  absoluteHeight :: "jsval option"
  dosingFactor :: "jsval option"
  buildDescription :: "jsval option"

record VelocityProfile =
  vp_ID :: jsval
  velocity :: jsval
  mode :: jsval
  laserOnDelay :: jsval
  laserOffDelay :: jsval
  jumpDelay :: jsval
  markDelay :: jsval
  polygonDelay :: jsval

record Wobble =
  w_on :: jsval
  freq :: jsval
  shape :: jsval
  transAmp :: jsval
  longAmp :: jsval

record Traveler =
  tv_ID :: jsval
  syncDelay :: "jsval option"
  power :: "jsval option"
  spotSize :: "jsval option"
  wobble :: "Wobble option"

record SegmentStyle =
  ss_ID :: jsval
  velocityProfileID :: jsval
  laserMode :: "jsval option"
  travelers :: "Traveler list"

record Segment =
  segmentID :: "jsval option"
  segStyle :: jsval
  x1 :: jsval
  y1 :: jsval
  x2 :: jsval
  y2 :: jsval

record Path =
  p_type :: jsval
  p_tag :: jsval
  numSegments :: jsval
  skyWritingMode :: jsval
  segments :: "Segment list"

record Trajectory =
  trajectoryID :: jsval
  pathProcessingMode :: jsval
  paths :: "Path list"

text \<open>
  The two \<^verbatim>\<open>Set\<close>s of a layer hold one fresh object per element and iterate in
  insertion order, so they are lists here.
\<close>

record Layer =
  header :: Header
  velocityProfiles :: "VelocityProfile list"
  segmentStyles :: "SegmentStyle list"
  trajectories :: "Trajectory list"

section \<open>The decoder (index.ts)\<close>

definition getHeader :: "node \<Rightarrow> Header result" where
  "getHeader xmlDoc =
     andThen (getMandatoryValueString xmlDoc ''AmericaMakesSchemaVersion'') (\<lambda>v.
     andThen (getOptionalValueInteger xmlDoc ''LayerNum'') (\<lambda>lnum.
     andThen (getMandatoryValueFloat xmlDoc ''LayerThickness'') (\<lambda>lt.
     andThen (getOptionalValueFloat xmlDoc ''AbsoluteHeight'') (\<lambda>ah.
     andThen (getOptionalValueFloat xmlDoc ''DosingFactor'') (\<lambda>df.
     andThen (getOptionalValueString xmlDoc ''BuildDescription'') (\<lambda>bd.
     let output = \<lparr> americaMakesSchemaVersion = v, layerNum = lnum, layerThickness = lt,
                      absoluteHeight = ah, dosingFactor = df, buildDescription = bd \<rparr>
     in
     andThen (assert (dateRegex (ToString (americaMakesSchemaVersion output)))
       ''INVALID SCHEMA: AmericaMakesSchemaVersion must be in the format YYYY-MM-DD!'') (\<lambda>_.
     andThen (assert (js_gt (layerThickness output) 0)
       ''INVALID SCHEMA: LayerThickness must be a real number more than zero!'') (\<lambda>_.
     andThen (assert (\<not> truthy (absoluteHeight output) \<or> js_gt (the (absoluteHeight output)) 0)
       ''INVALID SCHEMA: AbsoluteHeight must be a real number more than zero!'') (\<lambda>_.
     andThen (assert (\<not> truthy (dosingFactor output) \<or> js_gt (the (dosingFactor output)) 0)
       ''INVALID SCHEMA: DosingFactor must be a real number more than zero!'') (\<lambda>_.
     Inr output))))))))))"

text \<open>The body of the loop of \<^verbatim>\<open>getVelocityProfiles\<close>, for one element.\<close>

definition getVelocityProfile :: "node \<Rightarrow> VelocityProfile result" where
  "getVelocityProfile style =
     andThen (getMandatoryValueString style ''ID'') (\<lambda>i.
     andThen (getMandatoryValueFloat style ''Velocity'') (\<lambda>ve.
     andThen (getMandatoryValueString style ''Mode'') (\<lambda>mo.
     andThen (getMandatoryValueFloat style ''LaserOnDelay'') (\<lambda>lon.
     andThen (getMandatoryValueFloat style ''LaserOffDelay'') (\<lambda>loff.
     andThen (getMandatoryValueFloat style ''JumpDelay'') (\<lambda>jd.
     andThen (getMandatoryValueFloat style ''MarkDelay'') (\<lambda>md.
     andThen (getMandatoryValueFloat style ''PolygonDelay'') (\<lambda>pd.
     let profile = \<lparr> vp_ID = i, velocity = ve, mode = mo, laserOnDelay = lon,
                       laserOffDelay = loff, jumpDelay = jd, markDelay = md,
                       polygonDelay = pd \<rparr>
     in
     andThen (assert (js_gt (velocity profile) 0)
       ''INVALID SCHEMA: Velocity must be a real number more than zero!'') (\<lambda>_.
     andThen (assert (mode profile = JString ''Delay'' \<or> mode profile = JString ''Auto'')
       ''INVALID SCHEMA: Mode must be 'Delay' or 'Auto'!'') (\<lambda>_.
     Inr profile))))))))))"

definition getVelocityProfiles :: "node \<Rightarrow> VelocityProfile list result" where
  "getVelocityProfiles xmlDoc =
     forEach getVelocityProfile (getElementsByTagName xmlDoc ''VelocityProfile'')"

text \<open>
  The body of the traveler loop of \<^verbatim>\<open>getSegmentStyles\<close>. When the traveler has a
  \<^verbatim>\<open>Wobble\<close> element, its five fields are read and the two assertions are made on
  a \<^verbatim>\<open>const wobble\<close> declared inside the \<^verbatim>\<open>if\<close> block; the \<^verbatim>\<open>let wobble\<close> of the
  loop body, which the traveler object takes, is not assigned and stays \<^verbatim>\<open>null\<close>.
\<close>

definition getWobble :: "node \<Rightarrow> Wobble result" where
  "getWobble wobbleElem =
     andThen (getMandatoryValueInteger wobbleElem ''On'') (\<lambda>on.
     andThen (getMandatoryValueInteger wobbleElem ''Freq'') (\<lambda>fr.
     andThen (getMandatoryValueInteger wobbleElem ''Shape'') (\<lambda>sh.
     andThen (getMandatoryValueFloat wobbleElem ''TransAmp'') (\<lambda>ta.
     andThen (getMandatoryValueFloat wobbleElem ''LongAmp'') (\<lambda>la.
     let wobble = \<lparr> w_on = on, freq = fr, shape = sh, transAmp = ta, longAmp = la \<rparr>
     in
     andThen (assert (w_on wobble = JNumber 0 \<or> w_on wobble = JNumber 1)
       ''INVALID SCHEMA: Wobble On must be 0 or 1!'') (\<lambda>_.
     andThen (assert (js_ge (shape wobble) (- 1) \<and> js_le (shape wobble) (- 1))
       ''INVALID SCHEMA: Wobble Shape must be -1, 0, or 1!'') (\<lambda>_.
     Inr wobble)))))))"

definition getTraveler :: "node \<Rightarrow> Traveler result" where
  "getTraveler travelerXML =
     andThen (case getElementsByTagName travelerXML ''Wobble'' of
                [] \<Rightarrow> Inr None
              | wobbleElem # _ \<Rightarrow> andThen (getWobble wobbleElem) (\<lambda>inner. Inr None)) (\<lambda>wobble.
     andThen (getMandatoryValueInteger travelerXML ''ID'') (\<lambda>i.
     andThen (getOptionalValueInteger travelerXML ''SyncDelay'') (\<lambda>sd.
     andThen (getOptionalValueFloat travelerXML ''Power'') (\<lambda>pw.
     andThen (getOptionalValueFloat travelerXML ''SpotSize'') (\<lambda>sp.
     let traveler = \<lparr> tv_ID = i, syncDelay = sd, power = pw, spotSize = sp, wobble = wobble \<rparr>
     in
     andThen (assert (\<not> truthy (power traveler) \<or> js_ge (the (power traveler)) 0)
       ''INVALID SCHEMA: Power must be a real number more than zero!'') (\<lambda>_.
     Inr traveler))))))"

text \<open>The body of the style loop of \<^verbatim>\<open>getSegmentStyles\<close>.\<close>

definition getSegmentStyle :: "node \<Rightarrow> SegmentStyle result" where
  "getSegmentStyle style =
     andThen (forEach getTraveler (getElementsByTagName style ''Traveler'')) (\<lambda>travelers.
     andThen (getMandatoryValueString style ''ID'') (\<lambda>i.
     andThen (getMandatoryValueString style ''VelocityProfileID'') (\<lambda>vpid.
     andThen (if length travelers \<noteq> 0 then getOptionalValueString style ''LaserMode''
              else Inr None) (\<lambda>lm.
     let newSegmentStyle = \<lparr> ss_ID = i, velocityProfileID = vpid, laserMode = lm,
                               travelers = travelers \<rparr>
     in
     andThen (assert (\<not> truthy (laserMode newSegmentStyle)
                      \<or> laserMode newSegmentStyle = Some (JString ''Independent'')
                      \<or> laserMode newSegmentStyle = Some (JString ''FollowMe''))
       ''INVALID SCHEMA: LaserMode must be 'Independent' or 'FollowMe'!'') (\<lambda>_.
     Inr newSegmentStyle)))))"

definition getSegmentStyles :: "node \<Rightarrow> SegmentStyle list result" where
  "getSegmentStyles xmlDoc =
     forEach getSegmentStyle (getElementsByTagName xmlDoc ''SegmentStyle'')"

text \<open>
  The segment loop of \<^verbatim>\<open>getTrajectories\<close>: \<open>lastX\<close> and \<open>lastY\<close> are the cursor,
  which every segment starts from and then moves to its own end point.
\<close>

fun getSegments :: "jsval \<Rightarrow> jsval \<Rightarrow> node list \<Rightarrow> Segment list result" where
  "getSegments lastX lastY [] = Inr []"
| "getSegments lastX lastY (segmentXML # rest) =
     andThen (getMandatoryValueFloat segmentXML ''X'') (\<lambda>sx.
     andThen (getMandatoryValueFloat segmentXML ''Y'') (\<lambda>sy.
     andThen (getOptionalValueString segmentXML ''SegmentID'') (\<lambda>sid.
     andThen (getMandatoryValueString segmentXML ''SegStyle'') (\<lambda>st.
     let segment = \<lparr> segmentID = sid, segStyle = st, x1 = lastX, y1 = lastY,
                       x2 = sx, y2 = sy \<rparr>
     in
     andThen (getSegments (x2 segment) (y2 segment) rest) (\<lambda>segs.
     Inr (segment # segs))))))"

text \<open>
  The body of the path loop. \<^verbatim>\<open>getElementsByTagName("Start")[0]\<close> is \<^verbatim>\<open>undefined\<close>
  for a path without a \<^verbatim>\<open>Start\<close> element, and the accessor then throws a
  \<^verbatim>\<open>TypeError\<close> when it calls a method of it.
\<close>

definition getPath :: "node \<Rightarrow> Path result" where
  "getPath pathXML =
     andThen (getMandatoryValueString pathXML ''Type'') (\<lambda>ty.
     andThen (getMandatoryValueString pathXML ''Tag'') (\<lambda>tg.
     andThen (getMandatoryValueInteger pathXML ''NumSegments'') (\<lambda>ns.
     andThen (getMandatoryValueInteger pathXML ''SkyWritingMode'') (\<lambda>sw.
     let path = \<lparr> p_type = ty, p_tag = tg, numSegments = ns, skyWritingMode = sw,
                    segments = [] \<rparr>
     in
     andThen (assert (p_type path = JString ''hatch'' \<or> p_type path = JString ''contour'')
       ''INVALID SCHEMA: Path Type must be 'hatch' or 'contour'!'') (\<lambda>_.
     andThen (assert (js_ge (skyWritingMode path) 0 \<and> js_le (skyWritingMode path) 3)
       ''INVALID SCHEMA: SkyWritingMode must be 0, 1, 2, or 3!'') (\<lambda>_.
     case getElementsByTagName pathXML ''Start'' of
       [] \<Rightarrow> Inl (TypeError ''Cannot read properties of undefined'')
     | start # _ \<Rightarrow>
         andThen (getMandatoryValueFloat start ''X'') (\<lambda>lastX.
         andThen (getMandatoryValueFloat start ''Y'') (\<lambda>lastY.
         andThen (getSegments lastX lastY (getElementsByTagName pathXML ''Segment'')) (\<lambda>segs.
         Inr (path\<lparr> segments := segs \<rparr>))))))))))"

text \<open>The body of the trajectory loop.\<close>

definition getTrajectory :: "node \<Rightarrow> Trajectory result" where
  "getTrajectory trajectoryXML =
     andThen (forEach getPath (getElementsByTagName trajectoryXML ''Path'')) (\<lambda>ps.
     andThen (getMandatoryValueString trajectoryXML ''TrajectoryID'') (\<lambda>i.
     andThen (getMandatoryValueString trajectoryXML ''PathProcessingMode'') (\<lambda>pm.
     let trajectory = \<lparr> trajectoryID = i, pathProcessingMode = pm, paths = ps \<rparr>
     in
     andThen (assert (pathProcessingMode trajectory = JString ''sequential''
                      \<or> pathProcessingMode trajectory = JString ''concurrent'')
       ''INVALID SCHEMA: PathProcessingMode must be 'sequential' or 'concurrent'!'') (\<lambda>_.
     Inr trajectory))))"

definition getTrajectories :: "node \<Rightarrow> Trajectory list result" where
  "getTrajectories doc = forEach getTrajectory (getElementsByTagName doc ''Trajectory'')"

text \<open>
  \<^verbatim>\<open>LoadXML\<close> after the text has been parsed: header, segment styles, velocity
  profiles and trajectories, in this order, and the layer made of them.
\<close>

definition LoadDocument :: "node \<Rightarrow> Layer result" where
  "LoadDocument xmlDoc =
     andThen (getHeader xmlDoc) (\<lambda>h.
     andThen (getSegmentStyles xmlDoc) (\<lambda>ss.
     andThen (getVelocityProfiles xmlDoc) (\<lambda>vps.
     andThen (getTrajectories xmlDoc) (\<lambda>ts.
     Inr \<lparr> header = h, velocityProfiles = vps, segmentStyles = ss, trajectories = ts \<rparr>))))"

section \<open>The encoder (index.ts)\<close>

definition GetHeaderString :: "Layer \<Rightarrow> string" where
  "GetHeaderString layer =
     ''<Header>\<newline>''
     @ ''  <AmericaMakesSchemaVersion>'' @ ToString (americaMakesSchemaVersion (header layer))
       @ ''</AmericaMakesSchemaVersion>\<newline>''
     @ (case layerNum (header layer) of None \<Rightarrow> []
        | Some v \<Rightarrow> ''  <LayerNum>'' @ ToString v @ ''</LayerNum>\<newline>'')
     @ ''  <LayerThickness>'' @ ToString (layerThickness (header layer))
       @ ''</LayerThickness>\<newline>''
     @ (case absoluteHeight (header layer) of None \<Rightarrow> []
        | Some v \<Rightarrow> ''  <AbsoluteHeight>'' @ ToString v @ ''</AbsoluteHeight>\<newline>'')
     @ (case dosingFactor (header layer) of None \<Rightarrow> []
        | Some v \<Rightarrow> ''  <DosingFactor>'' @ ToString v @ ''</DosingFactor>\<newline>'')
     @ (case buildDescription (header layer) of None \<Rightarrow> []
        | Some v \<Rightarrow> ''  <BuildDescription>'' @ ToString v @ ''</BuildDescription>\<newline>'')
     @ ''</Header>\<newline>''"

text \<open>
  The text one traveler adds in the inner loop of \<^verbatim>\<open>GetSegmentStylesString\<close>. A field
  is written when it is \<^verbatim>\<open>!= null\<close>, that is neither \<^verbatim>\<open>null\<close> nor \<^verbatim>\<open>undefined\<close>;
  the list of travelers is always there.
\<close>

definition TravelerString :: "Traveler \<Rightarrow> string" where
  "TravelerString traveler =
     ''    <Traveler>\<newline>''
     @ ''      <ID>'' @ ToString (tv_ID traveler) @ ''</ID>\<newline>''
     @ (case syncDelay traveler of None \<Rightarrow> []
        | Some v \<Rightarrow> ''      <SyncDelay>'' @ ToString v @ ''</SyncDelay>\<newline>'')
     @ (case power traveler of None \<Rightarrow> []
        | Some v \<Rightarrow> ''      <Power>'' @ ToString v @ ''</Power>\<newline>'')
     @ (case spotSize traveler of None \<Rightarrow> []
        | Some v \<Rightarrow> ''      <SpotSize>'' @ ToString v @ ''</SpotSize>\<newline>'')
     @ (case wobble traveler of None \<Rightarrow> []
        | Some w \<Rightarrow>
            ''      <Wobble>\<newline>''
            @ ''        <On>'' @ ToString (w_on w) @ ''</On>\<newline>''
            @ ''        <Freq>'' @ ToString (freq w) @ ''</Freq>\<newline>''
            @ ''        <Shape>'' @ ToString (shape w) @ ''</Shape>\<newline>''
            @ ''        <TransAmp>'' @ ToString (transAmp w) @ ''</TransAmp>\<newline>''
            @ ''        <LongAmp>'' @ ToString (longAmp w) @ ''</LongAmp>\<newline>''
            @ ''      </Wobble>\<newline>'')
     @ ''    </Traveler>\<newline>''"

definition SegmentStyleString :: "SegmentStyle \<Rightarrow> string" where
  "SegmentStyleString segmentStyle =
     ''  <SegmentStyle>\<newline>''
     @ ''    <ID>'' @ ToString (ss_ID segmentStyle) @ ''</ID>\<newline>''
     @ ''    <VelocityProfileID>'' @ ToString (velocityProfileID segmentStyle)
       @ ''</VelocityProfileID>\<newline>''
     @ (case laserMode segmentStyle of None \<Rightarrow> []
        | Some v \<Rightarrow> ''    <LaserMode>'' @ ToString v @ ''</LaserMode>\<newline>'')
     @ concat (map TravelerString (travelers segmentStyle))
     @ ''  </SegmentStyle>\<newline>''"

definition GetSegmentStylesString :: "Layer \<Rightarrow> string" where
  "GetSegmentStylesString layer =
     ''<SegmentStyleList>\<newline>''
     @ concat (map SegmentStyleString (segmentStyles layer))
     @ ''</SegmentStyleList>\<newline>''"

definition VelocityProfileString :: "VelocityProfile \<Rightarrow> string" where
  "VelocityProfileString velocityProfile =
     ''  <VelocityProfile>\<newline>''
     @ ''    <ID>'' @ ToString (vp_ID velocityProfile) @ ''</ID>\<newline>''
     @ ''    <Velocity>'' @ ToString (velocity velocityProfile) @ ''</Velocity>\<newline>''
     @ ''    <Mode>'' @ ToString (mode velocityProfile) @ ''</Mode>\<newline>''
     @ ''    <LaserOnDelay>'' @ ToString (laserOnDelay velocityProfile)
       @ ''</LaserOnDelay>\<newline>''
     @ ''    <LaserOffDelay>'' @ ToString (laserOffDelay velocityProfile)
       @ ''</LaserOffDelay>\<newline>''
     @ ''    <JumpDelay>'' @ ToString (jumpDelay velocityProfile) @ ''</JumpDelay>\<newline>''
     @ ''    <MarkDelay>'' @ ToString (markDelay velocityProfile) @ ''</MarkDelay>\<newline>''
     @ ''    <PolygonDelay>'' @ ToString (polygonDelay velocityProfile)
       @ ''</PolygonDelay>\<newline>''
     @ ''  </VelocityProfile>\<newline>''"

definition GetVelocityProfilesString :: "Layer \<Rightarrow> string" where
  "GetVelocityProfilesString layer =
     ''<VelocityProfileList>\<newline>''
     @ concat (map VelocityProfileString (velocityProfiles layer))
     @ ''</VelocityProfileList>\<newline>''"

definition SegmentString :: "Segment \<Rightarrow> string" where
  "SegmentString segment =
     ''      <Segment>\<newline>''
     @ (case segmentID segment of None \<Rightarrow> []
        | Some v \<Rightarrow> ''        <SegmentID>'' @ ToString v @ ''</SegmentID>\<newline>'')
     @ ''        <SegStyle>'' @ ToString (segStyle segment) @ ''</SegStyle>\<newline>''
     @ ''        <End>\<newline>''
     @ ''          <X>'' @ ToString (x2 segment) @ ''</X>\<newline>''
     @ ''          <Y>'' @ ToString (y2 segment) @ ''</Y>\<newline>''
     @ ''        </End>\<newline>''
     @ ''      </Segment>\<newline>''"

text \<open>
  One path. The \<^verbatim>\<open>Start\<close> block and the segments are written only when
  \<^verbatim>\<open>path.numSegments > 0\<close>; \<^verbatim>\<open>path.segments[0].x1\<close> throws a \<^verbatim>\<open>TypeError\<close>
  when the list is empty.
\<close>

definition PathString :: "Path \<Rightarrow> string result" where
  "PathString path =
     andThen
       (if js_gt (numSegments path) 0 then
          (case segments path of
             [] \<Rightarrow> Inl (TypeError ''Cannot read properties of undefined'')
           | s0 # _ \<Rightarrow>
               Inr (''      <Start>\<newline>''
                    @ ''        <X>'' @ ToString (x1 s0) @ ''</X>\<newline>''
                    @ ''        <Y>'' @ ToString (y1 s0) @ ''</Y>\<newline>''
                    @ ''      </Start>\<newline>''
                    @ concat (map SegmentString (segments path))))
        else Inr [])
       (\<lambda>body.
          Inr (''    <Path>\<newline>''
               @ ''      <Type>'' @ ToString (p_type path) @ ''</Type>\<newline>''
               @ ''      <Tag>'' @ ToString (p_tag path) @ ''</Tag>\<newline>''
               @ ''      <NumSegments>'' @ ToString (numSegments path) @ ''</NumSegments>\<newline>''
               @ ''      <SkyWritingMode>'' @ ToString (skyWritingMode path)
                 @ ''</SkyWritingMode>\<newline>''
               @ body
               @ ''    </Path>\<newline>''))"

definition TrajectoryString :: "Trajectory \<Rightarrow> string result" where
  "TrajectoryString trajectory =
     andThen (forEach PathString (paths trajectory)) (\<lambda>ps.
     Inr (''  <Trajectory>\<newline>''
          @ ''    <TrajectoryID>'' @ ToString (trajectoryID trajectory)
            @ ''</TrajectoryID>\<newline>''
          @ ''    <PathProcessingMode>'' @ ToString (pathProcessingMode trajectory)
            @ ''</PathProcessingMode>\<newline>''
          @ concat ps
          @ ''  </Trajectory>\<newline>''))"

definition GetTrajectoriesString :: "Layer \<Rightarrow> string result" where
  "GetTrajectoriesString layer =
     andThen (forEach TrajectoryString (trajectories layer)) (\<lambda>ts.
     Inr (''<TrajectoryList>\<newline>'' @ concat ts @ ''</TrajectoryList>\<newline>''))"

definition ExportXML :: "Layer \<Rightarrow> string result" where
  "ExportXML layer =
     andThen (GetTrajectoriesString layer) (\<lambda>ts.
     Inr (''<?xml version=\"1.0\"?><!--Scan file created using OSU CDME's cdme-scangen-ui.-->\<newline>''
          @ ''<Layer>\<newline>''
          @ GetHeaderString layer
          @ GetSegmentStylesString layer
          @ GetVelocityProfilesString layer
          @ ts
          @ ''\<newline></Layer>''))"

section \<open>The parser of the platform\<close>

text \<open>
  \<^verbatim>\<open>new DOMParser().parseFromString(xmlStr, "text/xml")\<close> belongs to the platform, not
  to the repository. It is modelled for the fragment of XML that \<^verbatim>\<open>ExportXML\<close> writes:
  ASCII text with processing instructions and comments (both skipped), elements without
  attributes, and character data without references. The parser reads the text one
  character at a time; its state is the lexical mode, the character data read so far,
  the open elements with the children each had when the next one was opened, and the
  children of the innermost open element. Text that is not well formed, or leaves the
  fragment (attributes, empty-element tags, references, \<^verbatim>\<open>DOCTYPE\<close>, \<^verbatim>\<open>CDATA\<close>,
  carriage returns, which the platform would normalise, and characters beyond ASCII),
  yields the document with a \<^verbatim>\<open>parsererror\<close> element, as the platform reports errors
  (what a platform keeps of a malformed text besides that element is not modelled).
\<close>

datatype pmode =
  Content | TagOpen | StartTag string | EndTag string
| PI | PIq | Bang | BangDash | Comment | CommentDash | CommentDashDash | Malformed

datatype pstate = PState pmode string "(string \<times> node list) list" "node list"

text \<open>The characters of the fragment: tab, line feed, and the ASCII range from the space on.\<close>

definition xml_char :: "char \<Rightarrow> bool" where
  "xml_char c =
     (c = CHR 0x09 \<or> c = CHR 0x0A \<or> (32 \<le> (of_char c :: nat) \<and> (of_char c :: nat) < 128))"

definition is_space :: "char \<Rightarrow> bool" where
  "is_space c = (c = CHR '' '' \<or> c = CHR 0x0A \<or> c = CHR 0x09 \<or> c = CHR 0x0D)"

definition is_name_start :: "char \<Rightarrow> bool" where
  "is_name_start c =
     (c \<in> set ''abcdefghijklmnopqrstuvwxyzABCDEFGHIJKLMNOPQRSTUVWXYZ_:'')"

definition is_name_char :: "char \<Rightarrow> bool" where
  "is_name_char c = (is_name_start c \<or> is_digit c \<or> c = CHR ''-'' \<or> c = CHR ''.'')"

text \<open>
  The character data read so far becomes a text node of the open element; outside the
  root element only white space is allowed, and it is not part of the tree.
\<close>

definition flush :: "string \<Rightarrow> (string \<times> node list) list \<Rightarrow> node list \<Rightarrow> node list option" where
  "flush buf st ks =
     (if buf = [] then Some ks
      else if st = [] then (if list_all is_space buf then Some ks else None)
      else Some (ks @ [Text buf]))"

text \<open>Whether the character data read so far ends with \<^verbatim>\<open>]]\<close>, which may not precede \<^verbatim>\<open>>\<close>.\<close>

definition ends_cdata :: "string \<Rightarrow> bool" where
  "ends_cdata buf = (take 2 (rev buf) = '']]'')"

fun step :: "pstate \<Rightarrow> char \<Rightarrow> pstate" where
  "step (PState Content buf st ks) c =
     (if c = CHR ''<'' then
        (case flush buf st ks of
           None \<Rightarrow> PState Malformed [] st ks
         | Some ks' \<Rightarrow> PState TagOpen [] st ks')
      else if c = CHR ''&'' \<or> c = CHR 0x0D \<or> (c = CHR ''>'' \<and> ends_cdata buf)
      then PState Malformed [] st ks
      else PState Content (buf @ [c]) st ks)"
| "step (PState TagOpen buf st ks) c =
     (if c = CHR ''?'' then PState PI buf st ks
      else if c = CHR ''!'' then PState Bang buf st ks
      else if c = CHR ''/'' then PState (EndTag []) buf st ks
      else if is_name_start c then PState (StartTag [c]) buf st ks
      else PState Malformed buf st ks)"
| "step (PState (StartTag n) buf st ks) c =
     (if c = CHR ''>'' then
        (if st = [] \<and> ks \<noteq> [] then PState Malformed buf st ks
         else PState Content [] ((n, ks) # st) [])
      else if is_name_char c then PState (StartTag (n @ [c])) buf st ks
      else PState Malformed buf st ks)"
| "step (PState (EndTag n) buf st ks) c =
     (if c = CHR ''>'' then
        (case st of
           [] \<Rightarrow> PState Malformed buf st ks
         | (m, ks0) # st' \<Rightarrow>
             if m = n then PState Content [] st' (ks0 @ [Element n ks])
             else PState Malformed buf st ks)
      else if is_name_char c then PState (EndTag (n @ [c])) buf st ks
      else PState Malformed buf st ks)"
| "step (PState PI buf st ks) c =
     (if c = CHR ''?'' then PState PIq buf st ks else PState PI buf st ks)"
| "step (PState PIq buf st ks) c =
     (if c = CHR ''>'' then PState Content buf st ks
      else if c = CHR ''?'' then PState PIq buf st ks else PState PI buf st ks)"
| "step (PState Bang buf st ks) c =
     (if c = CHR ''-'' then PState BangDash buf st ks else PState Malformed buf st ks)"
| "step (PState BangDash buf st ks) c =
     (if c = CHR ''-'' then PState Comment buf st ks else PState Malformed buf st ks)"
| "step (PState Comment buf st ks) c =
     (if c = CHR ''-'' then PState CommentDash buf st ks else PState Comment buf st ks)"
| "step (PState CommentDash buf st ks) c =
     (if c = CHR ''-'' then PState CommentDashDash buf st ks else PState Comment buf st ks)"
| "step (PState CommentDashDash buf st ks) c =
     (if c = CHR ''>'' then PState Content buf st ks else PState Malformed buf st ks)"
| "step (PState Malformed buf st ks) c = PState Malformed buf st ks"

definition parsererror :: node where
  "parsererror = Element ''#document'' [Element ''parsererror'' [Text ''error on line 1'']]"

definition parseFromString :: "string \<Rightarrow> node" where
  "parseFromString xmlStr =
     (if list_all xml_char xmlStr then
        (case foldl step (PState Content [] [] []) xmlStr of
           PState Content buf [] ks \<Rightarrow>
             (case flush buf [] ks of
                Some [rootElem] \<Rightarrow> Element ''#document'' [rootElem]
              | _ \<Rightarrow> parsererror)
         | _ \<Rightarrow> parsererror)
      else parsererror)"

text \<open>\<^verbatim>\<open>LoadXML\<close>: parse the text, then decode the document.\<close>

definition LoadXML :: "string \<Rightarrow> Layer result" where
  "LoadXML xmlStr = LoadDocument (parseFromString xmlStr)"

section \<open>Auxiliary predicates and example documents\<close>

text \<open>Whether an evaluation returned a value rather than throwing.\<close>

definition succeeds :: "'a result \<Rightarrow> bool" where
  "succeeds r = (case r of Inl e \<Rightarrow> False | Inr v \<Rightarrow> True)"

text \<open>
  The header fields other than \<^verbatim>\<open>LayerThickness\<close> are valid: their reads return and
  the assertions on them hold.
\<close>

definition otherHeaderFieldsValid :: "node \<Rightarrow> bool" where
  "otherHeaderFieldsValid xmlDoc =
     (case (getMandatoryValueString xmlDoc ''AmericaMakesSchemaVersion'',
            getOptionalValueInteger xmlDoc ''LayerNum'',
            getOptionalValueFloat xmlDoc ''AbsoluteHeight'',
            getOptionalValueFloat xmlDoc ''DosingFactor'',
            getOptionalValueString xmlDoc ''BuildDescription'') of
        (Inr v, Inr lnum, Inr ah, Inr df, Inr bd) \<Rightarrow>
          dateRegex (ToString v) \<and> (\<not> truthy ah \<or> js_gt (the ah) 0)
          \<and> (\<not> truthy df \<or> js_gt (the df) 0)
      | _ \<Rightarrow> False)"

definition c2_node :: node where
  "c2_node = Element ''Header''
     [Element ''LayerNum'' [Text ''5''], Element ''LayerThickness'' [Text ''0.5'']]"

definition c10_first :: node where
  "c10_first = Element ''Traveler'' [Element ''ID'' [Text ''1''], Element ''ID'' [Text ''2'']]"

definition c10_second :: node where
  "c10_second = Element ''Traveler''
     [Text ''ws'', Element ''ID'' [Text ''1''],
      Element ''Wobble'' [Element ''ID'' [Text ''x'']], Element ''ID'' [Text ''3'']]"

definition example_path :: node where
  "example_path =
     Element ''Path''
       [Element ''Type'' [Text ''hatch''], Element ''Tag'' [Text ''part1''],
        Element ''NumSegments'' [Text ''2''], Element ''SkyWritingMode'' [Text ''0''],
        Element ''Start'' [Element ''X'' [Text ''0''], Element ''Y'' [Text ''0'']],
        Element ''Segment''
          [Element ''SegStyle'' [Text ''s1''],
           Element ''End'' [Element ''X'' [Text ''1''], Element ''Y'' [Text ''1'']]],
        Element ''Segment''
          [Element ''SegStyle'' [Text ''s1''],
           Element ''End'' [Element ''X'' [Text ''2''], Element ''Y'' [Text ''2'']]]]"

definition example_path_decoded :: Path where
  "example_path_decoded =
     \<lparr> p_type = JString ''hatch'', p_tag = JString ''part1'', numSegments = JString ''2'',
       skyWritingMode = JString ''0'',
       segments =
         [\<lparr> segmentID = None, segStyle = JString ''s1'', x1 = JString ''0'', y1 = JString ''0'',
            x2 = JString ''1'', y2 = JString ''1'' \<rparr>,
          \<lparr> segmentID = None, segStyle = JString ''s1'', x1 = JString ''1'', y1 = JString ''1'',
            x2 = JString ''2'', y2 = JString ''2'' \<rparr>] \<rparr>"

definition example_trajectory :: node where
  "example_trajectory =
     Element ''Trajectory''
       [Element ''TrajectoryID'' [Text ''0''],
        Element ''PathProcessingMode'' [Text ''sequential''],
        example_path,
        Element ''Path''
          [Element ''Type'' [Text ''contour''], Element ''Tag'' [Text ''part2''],
           Element ''NumSegments'' [Text ''0''], Element ''SkyWritingMode'' [Text ''3''],
           Element ''Start'' [Element ''X'' [Text ''5''], Element ''Y'' [Text ''-2.5'']]]]"

definition example_trajectory_decoded :: Trajectory where
  "example_trajectory_decoded =
     \<lparr> trajectoryID = JString ''0'', pathProcessingMode = JString ''sequential'',
       paths = [example_path_decoded,
                \<lparr> p_type = JString ''contour'', p_tag = JString ''part2'',
                  numSegments = JString ''0'', skyWritingMode = JString ''3'',
                  segments = [] \<rparr>] \<rparr>"

definition header_doc :: "string \<Rightarrow> node" where
  "header_doc th =
     Element ''#document''
       [Element ''Layer''
          [Element ''Header''
             [Element ''AmericaMakesSchemaVersion'' [Text ''2020-03-23''],
              Element ''LayerThickness'' [Text th]]]]"

definition c4_style :: node where
  "c4_style =
     Element ''SegmentStyle''
       [Element ''ID'' [Text ''s1''], Element ''VelocityProfileID'' [Text ''v1''],
        Element ''Traveler'' [Element ''ID'' [Text ''1''], Element ''Power'' [Text ''100'']]]"

definition c4_doc :: node where
  "c4_doc =
     Element ''#document''
       [Element ''Layer''
          [Element ''Header''
             [Element ''AmericaMakesSchemaVersion'' [Text ''2020-03-23''],
              Element ''LayerThickness'' [Text ''0.5'']],
           Element ''SegmentStyleList'' [c4_style]]]"

definition c4_decoded :: SegmentStyle where
  "c4_decoded =
     \<lparr> ss_ID = JString ''s1'', velocityProfileID = JString ''v1'', laserMode = None,
       travelers = [\<lparr> tv_ID = JString ''1'', syncDelay = None, power = Some (JString ''100''),
                      spotSize = None, wobble = None \<rparr>] \<rparr>"

definition c7_wobble :: "string \<Rightarrow> string \<Rightarrow> node" where
  "c7_wobble on sh =
     Element ''Wobble''
       [Element ''On'' [Text on], Element ''Freq'' [Text ''100''], Element ''Shape'' [Text sh],
        Element ''TransAmp'' [Text ''0.1''], Element ''LongAmp'' [Text ''0.1'']]"

definition c6_traveler :: node where
  "c6_traveler =
     Element ''Traveler'' [Element ''ID'' [Text ''1''], c7_wobble ''1'' ''0'']"

subsection \<open>The decoder over an arbitrary mandatory accessor\<close>

text \<open>
  To say that a document is valid but for one mandatory read, the decoder is restated
  with the mandatory accessor as a parameter \<open>M\<close>: the same functions, with
  \<^verbatim>\<open>getMandatoryValueString/Float/Integer(node, tag)\<close> replaced by \<open>M node tag kind\<close>.
  With \<open>getMandatoryValue\<close> for \<open>M\<close> they are the decoder itself.
\<close>

type_synonym mandatory = "node \<Rightarrow> string \<Rightarrow> kind option \<Rightarrow> jsval result"

definition getHeaderWith :: "mandatory \<Rightarrow> node \<Rightarrow> Header result" where
  "getHeaderWith M xmlDoc =
     andThen (M xmlDoc ''AmericaMakesSchemaVersion'' None) (\<lambda>v.
     andThen (getOptionalValueInteger xmlDoc ''LayerNum'') (\<lambda>lnum.
     andThen (M xmlDoc ''LayerThickness'' (Some Float)) (\<lambda>lt.
     andThen (getOptionalValueFloat xmlDoc ''AbsoluteHeight'') (\<lambda>ah.
     andThen (getOptionalValueFloat xmlDoc ''DosingFactor'') (\<lambda>df.
     andThen (getOptionalValueString xmlDoc ''BuildDescription'') (\<lambda>bd.
     let output = \<lparr> americaMakesSchemaVersion = v, layerNum = lnum, layerThickness = lt,
                      absoluteHeight = ah, dosingFactor = df, buildDescription = bd \<rparr>
     in
     andThen (assert (dateRegex (ToString (americaMakesSchemaVersion output)))
       ''INVALID SCHEMA: AmericaMakesSchemaVersion must be in the format YYYY-MM-DD!'') (\<lambda>_.
     andThen (assert (js_gt (layerThickness output) 0)
       ''INVALID SCHEMA: LayerThickness must be a real number more than zero!'') (\<lambda>_.
     andThen (assert (\<not> truthy (absoluteHeight output) \<or> js_gt (the (absoluteHeight output)) 0)
       ''INVALID SCHEMA: AbsoluteHeight must be a real number more than zero!'') (\<lambda>_.
     andThen (assert (\<not> truthy (dosingFactor output) \<or> js_gt (the (dosingFactor output)) 0)
       ''INVALID SCHEMA: DosingFactor must be a real number more than zero!'') (\<lambda>_.
     Inr output))))))))))"

definition getVelocityProfileWith :: "mandatory \<Rightarrow> node \<Rightarrow> VelocityProfile result" where
  "getVelocityProfileWith M style =
     andThen (M style ''ID'' None) (\<lambda>i.
     andThen (M style ''Velocity'' (Some Float)) (\<lambda>ve.
     andThen (M style ''Mode'' None) (\<lambda>mo.
     andThen (M style ''LaserOnDelay'' (Some Float)) (\<lambda>lon.
     andThen (M style ''LaserOffDelay'' (Some Float)) (\<lambda>loff.
     andThen (M style ''JumpDelay'' (Some Float)) (\<lambda>jd.
     andThen (M style ''MarkDelay'' (Some Float)) (\<lambda>md.
     andThen (M style ''PolygonDelay'' (Some Float)) (\<lambda>pd.
     let profile = \<lparr> vp_ID = i, velocity = ve, mode = mo, laserOnDelay = lon,
                       laserOffDelay = loff, jumpDelay = jd, markDelay = md,
                       polygonDelay = pd \<rparr>
     in
     andThen (assert (js_gt (velocity profile) 0)
       ''INVALID SCHEMA: Velocity must be a real number more than zero!'') (\<lambda>_.
     andThen (assert (mode profile = JString ''Delay'' \<or> mode profile = JString ''Auto'')
       ''INVALID SCHEMA: Mode must be 'Delay' or 'Auto'!'') (\<lambda>_.
     Inr profile))))))))))"

definition getWobbleWith :: "mandatory \<Rightarrow> node \<Rightarrow> Wobble result" where
  "getWobbleWith M wobbleElem =
     andThen (M wobbleElem ''On'' (Some Integer)) (\<lambda>on.
     andThen (M wobbleElem ''Freq'' (Some Integer)) (\<lambda>fr.
     andThen (M wobbleElem ''Shape'' (Some Integer)) (\<lambda>sh.
     andThen (M wobbleElem ''TransAmp'' (Some Float)) (\<lambda>ta.
     andThen (M wobbleElem ''LongAmp'' (Some Float)) (\<lambda>la.
     let wobble = \<lparr> w_on = on, freq = fr, shape = sh, transAmp = ta, longAmp = la \<rparr>
     in
     andThen (assert (w_on wobble = JNumber 0 \<or> w_on wobble = JNumber 1)
       ''INVALID SCHEMA: Wobble On must be 0 or 1!'') (\<lambda>_.
     andThen (assert (js_ge (shape wobble) (- 1) \<and> js_le (shape wobble) (- 1))
       ''INVALID SCHEMA: Wobble Shape must be -1, 0, or 1!'') (\<lambda>_.
     Inr wobble)))))))"

definition getTravelerWith :: "mandatory \<Rightarrow> node \<Rightarrow> Traveler result" where
  "getTravelerWith M travelerXML =
     andThen (case getElementsByTagName travelerXML ''Wobble'' of
                [] \<Rightarrow> Inr None
              | wobbleElem # _ \<Rightarrow> andThen (getWobbleWith M wobbleElem) (\<lambda>inner. Inr None)) (\<lambda>wobble.
     andThen (M travelerXML ''ID'' (Some Integer)) (\<lambda>i.
     andThen (getOptionalValueInteger travelerXML ''SyncDelay'') (\<lambda>sd.
     andThen (getOptionalValueFloat travelerXML ''Power'') (\<lambda>pw.
     andThen (getOptionalValueFloat travelerXML ''SpotSize'') (\<lambda>sp.
     let traveler = \<lparr> tv_ID = i, syncDelay = sd, power = pw, spotSize = sp, wobble = wobble \<rparr>
     in
     andThen (assert (\<not> truthy (power traveler) \<or> js_ge (the (power traveler)) 0)
       ''INVALID SCHEMA: Power must be a real number more than zero!'') (\<lambda>_.
     Inr traveler))))))"

definition getSegmentStyleWith :: "mandatory \<Rightarrow> node \<Rightarrow> SegmentStyle result" where
  "getSegmentStyleWith M style =
     andThen (forEach (getTravelerWith M) (getElementsByTagName style ''Traveler'')) (\<lambda>travelers.
     andThen (M style ''ID'' None) (\<lambda>i.
     andThen (M style ''VelocityProfileID'' None) (\<lambda>vpid.
     andThen (if length travelers \<noteq> 0 then getOptionalValueString style ''LaserMode''
              else Inr None) (\<lambda>lm.
     let newSegmentStyle = \<lparr> ss_ID = i, velocityProfileID = vpid, laserMode = lm,
                               travelers = travelers \<rparr>
     in
     andThen (assert (\<not> truthy (laserMode newSegmentStyle)
                      \<or> laserMode newSegmentStyle = Some (JString ''Independent'')
                      \<or> laserMode newSegmentStyle = Some (JString ''FollowMe''))
       ''INVALID SCHEMA: LaserMode must be 'Independent' or 'FollowMe'!'') (\<lambda>_.
     Inr newSegmentStyle)))))"

fun getSegmentsWith :: "mandatory \<Rightarrow> jsval \<Rightarrow> jsval \<Rightarrow> node list \<Rightarrow> Segment list result" where
  "getSegmentsWith M lastX lastY [] = Inr []"
| "getSegmentsWith M lastX lastY (segmentXML # rest) =
     andThen (M segmentXML ''X'' (Some Float)) (\<lambda>sx.
     andThen (M segmentXML ''Y'' (Some Float)) (\<lambda>sy.
     andThen (getOptionalValueString segmentXML ''SegmentID'') (\<lambda>sid.
     andThen (M segmentXML ''SegStyle'' None) (\<lambda>st.
     let segment = \<lparr> segmentID = sid, segStyle = st, x1 = lastX, y1 = lastY,
                       x2 = sx, y2 = sy \<rparr>
     in
     andThen (getSegmentsWith M (x2 segment) (y2 segment) rest) (\<lambda>segs.
     Inr (segment # segs))))))"

definition getPathWith :: "mandatory \<Rightarrow> node \<Rightarrow> Path result" where
  "getPathWith M pathXML =
     andThen (M pathXML ''Type'' None) (\<lambda>ty.
     andThen (M pathXML ''Tag'' None) (\<lambda>tg.
     andThen (M pathXML ''NumSegments'' (Some Integer)) (\<lambda>ns.
     andThen (M pathXML ''SkyWritingMode'' (Some Integer)) (\<lambda>sw.
     let path = \<lparr> p_type = ty, p_tag = tg, numSegments = ns, skyWritingMode = sw,
                    segments = [] \<rparr>
     in
     andThen (assert (p_type path = JString ''hatch'' \<or> p_type path = JString ''contour'')
       ''INVALID SCHEMA: Path Type must be 'hatch' or 'contour'!'') (\<lambda>_.
     andThen (assert (js_ge (skyWritingMode path) 0 \<and> js_le (skyWritingMode path) 3)
       ''INVALID SCHEMA: SkyWritingMode must be 0, 1, 2, or 3!'') (\<lambda>_.
     case getElementsByTagName pathXML ''Start'' of
       [] \<Rightarrow> Inl (TypeError ''Cannot read properties of undefined'')
     | start # _ \<Rightarrow>
         andThen (M start ''X'' (Some Float)) (\<lambda>lastX.
         andThen (M start ''Y'' (Some Float)) (\<lambda>lastY.
         andThen (getSegmentsWith M lastX lastY (getElementsByTagName pathXML ''Segment'')) (\<lambda>segs.
         Inr (path\<lparr> segments := segs \<rparr>))))))))))"

definition getTrajectoryWith :: "mandatory \<Rightarrow> node \<Rightarrow> Trajectory result" where
  "getTrajectoryWith M trajectoryXML =
     andThen (forEach (getPathWith M) (getElementsByTagName trajectoryXML ''Path'')) (\<lambda>ps.
     andThen (M trajectoryXML ''TrajectoryID'' None) (\<lambda>i.
     andThen (M trajectoryXML ''PathProcessingMode'' None) (\<lambda>pm.
     let trajectory = \<lparr> trajectoryID = i, pathProcessingMode = pm, paths = ps \<rparr>
     in
     andThen (assert (pathProcessingMode trajectory = JString ''sequential''
                      \<or> pathProcessingMode trajectory = JString ''concurrent'')
       ''INVALID SCHEMA: PathProcessingMode must be 'sequential' or 'concurrent'!'') (\<lambda>_.
     Inr trajectory))))"

definition LoadDocumentWith :: "mandatory \<Rightarrow> node \<Rightarrow> Layer result" where
  "LoadDocumentWith M xmlDoc =
     andThen (getHeaderWith M xmlDoc) (\<lambda>h.
     andThen (forEach (getSegmentStyleWith M) (getElementsByTagName xmlDoc ''SegmentStyle'')) (\<lambda>ss.
     andThen (forEach (getVelocityProfileWith M) (getElementsByTagName xmlDoc ''VelocityProfile'')) (\<lambda>vps.
     andThen (forEach (getTrajectoryWith M) (getElementsByTagName xmlDoc ''Trajectory'')) (\<lambda>ts.
     Inr \<lparr> header = h, velocityProfiles = vps, segmentStyles = ss, trajectories = ts \<rparr>))))"

text \<open>
  \<open>sim e r' r\<close>: the evaluation \<open>r\<close> ends as \<open>r'\<close> does, or throws \<open>e\<close>.
\<close>

definition sim :: "error \<Rightarrow> 'a result \<Rightarrow> 'a result \<Rightarrow> bool" where
  "sim e r' r = (r = r' \<or> r = Inl e)"

text \<open>
  The mandatory accessor repaired at one read: it returns \<open>v\<close> for the node, tag and kind
  given, and is \<open>getMandatoryValue\<close> everywhere else.
\<close>

definition repaired :: "node \<Rightarrow> string \<Rightarrow> kind option \<Rightarrow> jsval \<Rightarrow> mandatory" where
  "repaired nd t ty v =
     (\<lambda>nd' t' ty'. if (nd', t', ty') = (nd, t, ty) then Inr v else getMandatoryValue nd' t' ty')"

definition c5_missing :: node where
  "c5_missing =
     Element ''#document''
       [Element ''Layer''
          [Element ''Header''
             [Element ''AmericaMakesSchemaVersion'' [Text ''2020-03-23'']]]]"

definition c5_style :: node where
  "c5_style =
     Element ''SegmentStyle''
       [Element ''VelocityProfileID'' [Text ''v1''],
        Element ''LaserMode'' [Text ''Independent''],
        Element ''Traveler'' [Element ''ID'' [Text ''7''], Element ''Power'' [Text ''100'']]]"

definition c5_doc :: node where
  "c5_doc =
     Element ''#document''
       [Element ''Layer''
          [Element ''Header''
             [Element ''AmericaMakesSchemaVersion'' [Text ''2020-03-23''],
              Element ''LayerThickness'' [Text ''0.5'']],
           Element ''SegmentStyleList'' [c5_style]]]"

text \<open>The element children of a node (\<^verbatim>\<open>node.children\<close>).\<close>

fun childElements :: "node \<Rightarrow> node list" where
  "childElements (Element n kids) = filter (\<lambda>k. case k of Element m ks \<Rightarrow> True | Text s \<Rightarrow> False) kids"
| "childElements (Text s) = []"

subsection \<open>Layers that survive encoding and decoding\<close>

text \<open>
  The character data the encoder can write between two tags and read back: characters
  of the fragment other than the markup characters, which the encoder does not escape.
\<close>

definition text_char :: "char \<Rightarrow> bool" where
  "text_char c = (xml_char c \<and> c \<noteq> CHR ''<'' \<and> c \<noteq> CHR ''>'' \<and> c \<noteq> CHR ''&'')"

definition clean :: "string \<Rightarrow> bool" where
  "clean s = (s \<noteq> [] \<and> list_all text_char s)"

text \<open>
  A scalar as the decoder stores it: the text of a field, not empty, free of markup
  characters; of the lexical form of an integer, a float or the date.
\<close>

definition textual :: "jsval \<Rightarrow> bool" where
  "textual v = (case v of JString s \<Rightarrow> clean s | _ \<Rightarrow> False)"

definition isInt :: "jsval \<Rightarrow> bool" where
  "isInt v = (case v of JString s \<Rightarrow> s \<noteq> [] \<and> isIntegerRegex s | _ \<Rightarrow> False)"

definition isFloat :: "jsval \<Rightarrow> bool" where
  "isFloat v = (case v of JString s \<Rightarrow> isFloatRegex s | _ \<Rightarrow> False)"

definition isDate :: "jsval \<Rightarrow> bool" where
  "isDate v = (case v of JString s \<Rightarrow> dateRegex s | _ \<Rightarrow> False)"

definition isOpt :: "(jsval \<Rightarrow> bool) \<Rightarrow> jsval option \<Rightarrow> bool" where
  "isOpt P ov = (case ov of None \<Rightarrow> True | Some v \<Rightarrow> P v)"

text \<open>
  The layers for which encoding and decoding is shown to be the identity. Every scalar
  is a string of the form its field is validated against, within the bounds and
  enumerations the decoder asserts; a traveler has no wobble; a style without travelers
  has no laser mode; a path has at least one segment and a positive segment count, and
  each of its segments starts where the one before it ends.
\<close>

definition validHeader :: "Header \<Rightarrow> bool" where
  "validHeader h =
     (isDate (americaMakesSchemaVersion h) \<and> isOpt isInt (layerNum h)
      \<and> isFloat (layerThickness h) \<and> js_gt (layerThickness h) 0
      \<and> isOpt (\<lambda>v. isFloat v \<and> js_gt v 0) (absoluteHeight h)
      \<and> isOpt (\<lambda>v. isFloat v \<and> js_gt v 0) (dosingFactor h)
      \<and> isOpt textual (buildDescription h))"

definition validVelocityProfile :: "VelocityProfile \<Rightarrow> bool" where
  "validVelocityProfile vp =
     (textual (vp_ID vp) \<and> isFloat (velocity vp) \<and> js_gt (velocity vp) 0
      \<and> (mode vp = JString ''Delay'' \<or> mode vp = JString ''Auto'')
      \<and> isFloat (laserOnDelay vp) \<and> isFloat (laserOffDelay vp) \<and> isFloat (jumpDelay vp)
      \<and> isFloat (markDelay vp) \<and> isFloat (polygonDelay vp))"

definition validTraveler :: "Traveler \<Rightarrow> bool" where
  "validTraveler t =
     (isInt (tv_ID t) \<and> isOpt isInt (syncDelay t)
      \<and> isOpt (\<lambda>v. isFloat v \<and> js_ge v 0) (power t) \<and> isOpt isFloat (spotSize t)
      \<and> wobble t = None)"

definition validSegmentStyle :: "SegmentStyle \<Rightarrow> bool" where
  "validSegmentStyle s =
     (textual (ss_ID s) \<and> textual (velocityProfileID s)
      \<and> (if travelers s = [] then laserMode s = None
          else isOpt (\<lambda>v. v = JString ''Independent'' \<or> v = JString ''FollowMe'') (laserMode s))
      \<and> list_all validTraveler (travelers s))"

definition validSegment :: "Segment \<Rightarrow> bool" where
  "validSegment sg =
     (isOpt textual (segmentID sg) \<and> textual (segStyle sg) \<and> isFloat (x2 sg) \<and> isFloat (y2 sg))"

fun chained :: "jsval \<Rightarrow> jsval \<Rightarrow> Segment list \<Rightarrow> bool" where
  "chained lx ly [] = True"
| "chained lx ly (sg # rest) = (x1 sg = lx \<and> y1 sg = ly \<and> chained (x2 sg) (y2 sg) rest)"

definition validPath :: "Path \<Rightarrow> bool" where
  "validPath p =
     ((p_type p = JString ''hatch'' \<or> p_type p = JString ''contour'') \<and> textual (p_tag p)
      \<and> isInt (numSegments p) \<and> js_gt (numSegments p) 0
      \<and> isInt (skyWritingMode p) \<and> js_ge (skyWritingMode p) 0 \<and> js_le (skyWritingMode p) 3
      \<and> (case segments p of [] \<Rightarrow> False
          | s0 # _ \<Rightarrow> isFloat (x1 s0) \<and> isFloat (y1 s0) \<and> chained (x1 s0) (y1 s0) (segments p))
      \<and> list_all validSegment (segments p))"

definition validTrajectory :: "Trajectory \<Rightarrow> bool" where
  "validTrajectory t =
     (textual (trajectoryID t)
      \<and> (pathProcessingMode t = JString ''sequential'' \<or> pathProcessingMode t = JString ''concurrent'')
      \<and> list_all validPath (paths t))"

definition validLayer :: "Layer \<Rightarrow> bool" where
  "validLayer L =
     (validHeader (header L) \<and> list_all validSegmentStyle (segmentStyles L)
      \<and> list_all validVelocityProfile (velocityProfiles L)
      \<and> list_all validTrajectory (trajectories L))"

subsection \<open>The document an encoded layer parses to\<close>

text \<open>
  The text of one line with a leaf element, and of an element around a block of lines;
  the nodes each of them adds to the children of the open element: the white space
  before the tag, and the element.
\<close>

definition is_name :: "string \<Rightarrow> bool" where
  "is_name nm = (case nm of [] \<Rightarrow> False | c # cs \<Rightarrow> is_name_start c \<and> list_all is_name_char cs)"

definition leaf :: "string \<Rightarrow> string \<Rightarrow> string \<Rightarrow> string" where
  "leaf ind nm s = ind @ ''<'' @ nm @ ''>'' @ s @ ''</'' @ nm @ ''>\<newline>''"

definition elem :: "string \<Rightarrow> string \<Rightarrow> string \<Rightarrow> string" where
  "elem ind nm body = ind @ ''<'' @ nm @ ''>\<newline>'' @ body @ ind @ ''</'' @ nm @ ''>\<newline>''"

definition leafN :: "string \<Rightarrow> string \<Rightarrow> string \<Rightarrow> node list" where
  "leafN ind nm s = [Text (''\<newline>'' @ ind), Element nm [Text s]]"

definition elemN :: "string \<Rightarrow> string \<Rightarrow> node list \<Rightarrow> node list" where
  "elemN ind nm kids = [Text (''\<newline>'' @ ind), Element nm (kids @ [Text (''\<newline>'' @ ind)])]"

definition optS :: "jsval option \<Rightarrow> string \<Rightarrow> string \<Rightarrow> string" where
  "optS ov ind nm = (case ov of None \<Rightarrow> [] | Some v \<Rightarrow> leaf ind nm (ToString v))"

definition optN :: "jsval option \<Rightarrow> string \<Rightarrow> string \<Rightarrow> node list" where
  "optN ov ind nm = (case ov of None \<Rightarrow> [] | Some v \<Rightarrow> leafN ind nm (ToString v))"

text \<open>
  \<open>lines body kids\<close>: the parser, between two lines inside an open element, reads
  \<open>body\<close> and is between two lines again, with \<open>kids\<close> added to the children.
\<close>

definition lines :: "string \<Rightarrow> node list \<Rightarrow> bool" where
  "lines body kids =
     (list_all xml_char body \<and>
      (\<forall>st ks. st \<noteq> [] \<longrightarrow>
         foldl step (PState Content ''\<newline>'' st ks) body
           = PState Content ''\<newline>'' st (ks @ kids)))"

text \<open>The children of the element of each entity, and the document of a layer.\<close>

definition header_kids :: "Header \<Rightarrow> node list" where
  "header_kids h =
     leafN ''  '' ''AmericaMakesSchemaVersion'' (ToString (americaMakesSchemaVersion h))
     @ optN (layerNum h) ''  '' ''LayerNum''
     @ leafN ''  '' ''LayerThickness'' (ToString (layerThickness h))
     @ optN (absoluteHeight h) ''  '' ''AbsoluteHeight''
     @ optN (dosingFactor h) ''  '' ''DosingFactor''
     @ optN (buildDescription h) ''  '' ''BuildDescription''"

definition traveler_kids :: "Traveler \<Rightarrow> node list" where
  "traveler_kids t =
     leafN ''      '' ''ID'' (ToString (tv_ID t))
     @ optN (syncDelay t) ''      '' ''SyncDelay''
     @ optN (power t) ''      '' ''Power''
     @ optN (spotSize t) ''      '' ''SpotSize''"

definition traveler_nodes :: "Traveler \<Rightarrow> node list" where
  "traveler_nodes t = elemN ''    '' ''Traveler'' (traveler_kids t)"

definition style_kids :: "SegmentStyle \<Rightarrow> node list" where
  "style_kids s =
     leafN ''    '' ''ID'' (ToString (ss_ID s))
     @ leafN ''    '' ''VelocityProfileID'' (ToString (velocityProfileID s))
     @ optN (laserMode s) ''    '' ''LaserMode''
     @ concat (map traveler_nodes (travelers s))"

definition style_nodes :: "SegmentStyle \<Rightarrow> node list" where
  "style_nodes s = elemN ''  '' ''SegmentStyle'' (style_kids s)"

definition profile_kids :: "VelocityProfile \<Rightarrow> node list" where
  "profile_kids vp =
     leafN ''    '' ''ID'' (ToString (vp_ID vp))
     @ leafN ''    '' ''Velocity'' (ToString (velocity vp))
     @ leafN ''    '' ''Mode'' (ToString (mode vp))
     @ leafN ''    '' ''LaserOnDelay'' (ToString (laserOnDelay vp))
     @ leafN ''    '' ''LaserOffDelay'' (ToString (laserOffDelay vp))
     @ leafN ''    '' ''JumpDelay'' (ToString (jumpDelay vp))
     @ leafN ''    '' ''MarkDelay'' (ToString (markDelay vp))
     @ leafN ''    '' ''PolygonDelay'' (ToString (polygonDelay vp))"

definition profile_nodes :: "VelocityProfile \<Rightarrow> node list" where
  "profile_nodes vp = elemN ''  '' ''VelocityProfile'' (profile_kids vp)"

definition segment_kids :: "Segment \<Rightarrow> node list" where
  "segment_kids sg =
     optN (segmentID sg) ''        '' ''SegmentID''
     @ leafN ''        '' ''SegStyle'' (ToString (segStyle sg))
     @ elemN ''        '' ''End''
         (leafN ''          '' ''X'' (ToString (x2 sg)) @ leafN ''          '' ''Y'' (ToString (y2 sg)))"

definition segment_nodes :: "Segment \<Rightarrow> node list" where
  "segment_nodes sg = elemN ''      '' ''Segment'' (segment_kids sg)"

definition path_kids :: "Path \<Rightarrow> node list" where
  "path_kids p =
     leafN ''      '' ''Type'' (ToString (p_type p))
     @ leafN ''      '' ''Tag'' (ToString (p_tag p))
     @ leafN ''      '' ''NumSegments'' (ToString (numSegments p))
     @ leafN ''      '' ''SkyWritingMode'' (ToString (skyWritingMode p))
     @ elemN ''      '' ''Start''
         (leafN ''        '' ''X'' (ToString (x1 (hd (segments p))))
          @ leafN ''        '' ''Y'' (ToString (y1 (hd (segments p)))))
     @ concat (map segment_nodes (segments p))"

definition path_nodes :: "Path \<Rightarrow> node list" where
  "path_nodes p = elemN ''    '' ''Path'' (path_kids p)"

definition trajectory_kids :: "Trajectory \<Rightarrow> node list" where
  "trajectory_kids t =
     leafN ''    '' ''TrajectoryID'' (ToString (trajectoryID t))
     @ leafN ''    '' ''PathProcessingMode'' (ToString (pathProcessingMode t))
     @ concat (map path_nodes (paths t))"

definition trajectory_nodes :: "Trajectory \<Rightarrow> node list" where
  "trajectory_nodes t = elemN ''  '' ''Trajectory'' (trajectory_kids t)"

definition layer_kids :: "Layer \<Rightarrow> node list" where
  "layer_kids L =
     elemN [] ''Header'' (header_kids (header L))
     @ elemN [] ''SegmentStyleList'' (concat (map style_nodes (segmentStyles L)))
     @ elemN [] ''VelocityProfileList'' (concat (map profile_nodes (velocityProfiles L)))
     @ elemN [] ''TrajectoryList'' (concat (map trajectory_nodes (trajectories L)))"

definition document_of :: "Layer \<Rightarrow> node" where
  "document_of L = Element ''#document'' [Element ''Layer'' (layer_kids L @ [Text ''\<newline>\<newline>''])]"

text \<open>The text \<^verbatim>\<open>ExportXML\<close> writes for a valid path, trajectory and layer.\<close>

definition path_text :: "Path \<Rightarrow> string" where
  "path_text p =
     elem ''    '' ''Path''
       (leaf ''      '' ''Type'' (ToString (p_type p))
        @ leaf ''      '' ''Tag'' (ToString (p_tag p))
        @ leaf ''      '' ''NumSegments'' (ToString (numSegments p))
        @ leaf ''      '' ''SkyWritingMode'' (ToString (skyWritingMode p))
        @ elem ''      '' ''Start''
            (leaf ''        '' ''X'' (ToString (x1 (hd (segments p))))
             @ leaf ''        '' ''Y'' (ToString (y1 (hd (segments p)))))
        @ concat (map SegmentString (segments p)))"

definition trajectory_text :: "Trajectory \<Rightarrow> string" where
  "trajectory_text t =
     elem ''  '' ''Trajectory''
       (leaf ''    '' ''TrajectoryID'' (ToString (trajectoryID t))
        @ leaf ''    '' ''PathProcessingMode'' (ToString (pathProcessingMode t))
        @ concat (map path_text (paths t)))"

definition trajectories_text :: "Layer \<Rightarrow> string" where
  "trajectories_text L = elem [] ''TrajectoryList'' (concat (map trajectory_text (trajectories L)))"

definition layer_text :: "Layer \<Rightarrow> string" where
  "layer_text L =
     GetHeaderString L @ GetSegmentStylesString L @ GetVelocityProfilesString L
     @ trajectories_text L"

text \<open>
  The elements with a tag among the descendants of a list of nodes, the texts a read of
  a given kind accepts, and the element of each entity.
\<close>

definition findTag :: "string \<Rightarrow> node list \<Rightarrow> node list" where
  "findTag t ks = filter (\<lambda>e. tagName e = t) (concat (map elements ks))"

definition valid_for :: "kind option \<Rightarrow> jsval \<Rightarrow> bool" where
  "valid_for ty v =
     (case v of
        JString s \<Rightarrow> s \<noteq> [] \<and> (ty = Some Float \<longrightarrow> isFloatRegex s)
                     \<and> (ty = Some Integer \<longrightarrow> isIntegerRegex s)
      | _ \<Rightarrow> False)"

definition traveler_elem :: "Traveler \<Rightarrow> node" where
  "traveler_elem t = Element ''Traveler'' (traveler_kids t @ [Text (''\<newline>'' @ ''    '')])"

definition style_elem :: "SegmentStyle \<Rightarrow> node" where
  "style_elem s = Element ''SegmentStyle'' (style_kids s @ [Text (''\<newline>'' @ ''  '')])"

definition profile_elem :: "VelocityProfile \<Rightarrow> node" where
  "profile_elem vp = Element ''VelocityProfile'' (profile_kids vp @ [Text (''\<newline>'' @ ''  '')])"

definition segment_elem :: "Segment \<Rightarrow> node" where
  "segment_elem sg = Element ''Segment'' (segment_kids sg @ [Text (''\<newline>'' @ ''      '')])"

definition path_elem :: "Path \<Rightarrow> node" where
  "path_elem p = Element ''Path'' (path_kids p @ [Text (''\<newline>'' @ ''    '')])"

definition trajectory_elem :: "Trajectory \<Rightarrow> node" where
  "trajectory_elem t = Element ''Trajectory'' (trajectory_kids t @ [Text (''\<newline>'' @ ''  '')])"

text \<open>
  A valid layer as the decoder produces it, and a layer of the data model with a path
  that has no segments.
\<close>

definition c1_layer :: Layer where
  "c1_layer =
     \<lparr> header = \<lparr> americaMakesSchemaVersion = JString ''2020-03-23'',
                   layerNum = Some (JString ''3''), layerThickness = JString ''0.5'',
                   absoluteHeight = None, dosingFactor = Some (JString ''1.5''),
                   buildDescription = Some (JString ''demo build'') \<rparr>,
       velocityProfiles =
         [\<lparr> vp_ID = JString ''v1'', velocity = JString ''900'', mode = JString ''Delay'',
            laserOnDelay = JString ''0'', laserOffDelay = JString ''0'', jumpDelay = JString ''0'',
            markDelay = JString ''0'', polygonDelay = JString ''0'' \<rparr>],
       segmentStyles =
         [\<lparr> ss_ID = JString ''s1'', velocityProfileID = JString ''v1'',
            laserMode = Some (JString ''Independent''),
            travelers = [\<lparr> tv_ID = JString ''1'', syncDelay = None,
                           power = Some (JString ''100''), spotSize = None, wobble = None \<rparr>] \<rparr>,
          \<lparr> ss_ID = JString ''jump'', velocityProfileID = JString ''v1'', laserMode = None,
            travelers = [] \<rparr>],
       trajectories =
         [\<lparr> trajectoryID = JString ''0'', pathProcessingMode = JString ''sequential'',
            paths =
              [\<lparr> p_type = JString ''hatch'', p_tag = JString ''part1'',
                 numSegments = JString ''2'', skyWritingMode = JString ''0'',
                 segments =
                   [\<lparr> segmentID = None, segStyle = JString ''s1'', x1 = JString ''0'',
                      y1 = JString ''0'', x2 = JString ''1'', y2 = JString ''1'' \<rparr>,
                    \<lparr> segmentID = Some (JString ''b''), segStyle = JString ''jump'',
                      x1 = JString ''1'', y1 = JString ''1'', x2 = JString ''2'',
                      y2 = JString ''-2.5'' \<rparr>] \<rparr>] \<rparr>] \<rparr>"

definition c1_empty_path :: Layer where
  "c1_empty_path =
     \<lparr> header = \<lparr> americaMakesSchemaVersion = JString ''2020-03-23'', layerNum = None,
                   layerThickness = JNumber (1 / 2), absoluteHeight = None,
                   dosingFactor = None, buildDescription = None \<rparr>,
       velocityProfiles = [], segmentStyles = [],
       trajectories =
         [\<lparr> trajectoryID = JString ''0'', pathProcessingMode = JString ''sequential'',
            paths = [\<lparr> p_type = JString ''contour'', p_tag = JString ''part1'',
                       numSegments = JNumber 0, skyWritingMode = JNumber 0,
                       segments = [] \<rparr>] \<rparr>] \<rparr>"

section \<open>Basic facts\<close>

lemma andThen_Inl [simp]: "andThen (Inl e) f = Inl e" by (simp add: andThen_def)
lemma andThen_Inr [simp]: "andThen (Inr v) f = f v" by (simp add: andThen_def)
lemma assert_True [simp]: "c \<Longrightarrow> assert c m = Inr ()" by (simp add: assert_def)
lemma assert_False [simp]: "\<not> c \<Longrightarrow> assert c m = Inl (AssertionError m)" by (simp add: assert_def)

lemma andThen_eq_Inr: "andThen r f = Inr y \<longleftrightarrow> (\<exists>v. r = Inr v \<and> f v = Inr y)"
  by (cases r) simp_all

lemma assert_eq_Inr: "assert c m = Inr u \<longleftrightarrow> c"
  by (simp add: assert_def)

lemma validate_cases: "validate t s ty = Inr () \<or> (\<exists>m. validate t s ty = Inl (AssertionError m))"
  by (cases ty) (auto simp: validate_def assert_def)

lemma getMandatoryValue_Inr:
  "getMandatoryValue nd t ty = Inr v \<Longrightarrow>
   \<exists>e r. getElementsByTagName nd t = e # r \<and> textContent e \<noteq> [] \<and> v = JString (textContent e)
     \<and> validate t (textContent e) ty = Inr ()"
  unfolding getMandatoryValue_def
  by (cases "getElementsByTagName nd t") (auto simp: andThen_eq_Inr assert_eq_Inr Let_def)

lemma getOptionalValue_Inr:
  "getOptionalValue nd t ty = Inr ov \<Longrightarrow>
   ov = None \<or> (\<exists>e r. getElementsByTagName nd t = e # r \<and> textContent e \<noteq> []
                  \<and> ov = Some (JString (textContent e)) \<and> validate t (textContent e) ty = Inr ())"
  unfolding getOptionalValue_def
  by (cases "getElementsByTagName nd t") (auto simp: andThen_eq_Inr Let_def split: if_splits)

lemmas accessor_defs = getMandatoryValueString_def getMandatoryValueFloat_def
  getMandatoryValueInteger_def getOptionalValueString_def getOptionalValueFloat_def
  getOptionalValueInteger_def

lemmas eval_defs = getMandatoryValue_def getOptionalValue_def getElementsByTagName_def
  descendants_def accessor_defs
  validate_def isIntegerRegex_def isFloatRegex_def dateRegex_def all_digits_def is_digit_def
  cast_def js_gt_def js_ge_def js_le_def ToNumber_def nat_of_digits_def digit_val_def
  parseInt_def parseFloat_def

lemma forEach_Inr:
  "forEach f xs = Inr ys \<Longrightarrow> length ys = length xs \<and> (\<forall>i<length xs. f (xs ! i) = Inr (ys ! i))"
proof (induction xs arbitrary: ys)
  case Nil then show ?case by simp
next
  case (Cons x xs)
  from Cons.prems obtain y ys' where fx: "f x = Inr y" and r: "forEach f xs = Inr ys'" and ys: "ys = y # ys'"
    by (auto simp: andThen_eq_Inr)
  from Cons.IH[OF r] have ih: "length ys' = length xs" "\<forall>i<length xs. f (xs ! i) = Inr (ys' ! i)" by auto
  show ?case using fx ih ys by (auto simp: nth_Cons split: nat.splits)
qed

lemma getSegments_chain:
  "getSegments lx ly xs = Inr segs \<Longrightarrow>
   length segs = length xs \<and>
   (\<forall>i<length xs.
      x1 (segs ! i) = (if i = 0 then lx else x2 (segs ! (i - 1))) \<and>
      y1 (segs ! i) = (if i = 0 then ly else y2 (segs ! (i - 1))) \<and>
      getMandatoryValueFloat (xs ! i) ''X'' = Inr (x2 (segs ! i)) \<and>
      getMandatoryValueFloat (xs ! i) ''Y'' = Inr (y2 (segs ! i)))"
proof (induction xs arbitrary: lx ly segs)
  case Nil then show ?case by simp
next
  case (Cons s xs)
  from Cons.prems obtain sx sy sid st rest where
    rx: "getMandatoryValueFloat s ''X'' = Inr sx" and ry: "getMandatoryValueFloat s ''Y'' = Inr sy"
    and rr: "getSegments sx sy xs = Inr rest"
    and sg: "segs = \<lparr> segmentID = sid, segStyle = st, x1 = lx, y1 = ly, x2 = sx, y2 = sy \<rparr> # rest"
    by (auto simp: andThen_eq_Inr Let_def)
  note ih = Cons.IH[OF rr]
  show ?case
  proof (intro conjI allI impI)
    show "length segs = length (s # xs)" using ih sg by simp
  next
    fix i assume i: "i < length (s # xs)"
    show "x1 (segs ! i) = (if i = 0 then lx else x2 (segs ! (i - 1)))"
      using ih sg i by (cases i) (auto simp: nth_Cons split: nat.splits)
    show "y1 (segs ! i) = (if i = 0 then ly else y2 (segs ! (i - 1)))"
      using ih sg i by (cases i) (auto simp: nth_Cons split: nat.splits)
    show "getMandatoryValueFloat ((s # xs) ! i) ''X'' = Inr (x2 (segs ! i))"
      using ih sg i rx by (cases i) auto
    show "getMandatoryValueFloat ((s # xs) ! i) ''Y'' = Inr (y2 (segs ! i))"
      using ih sg i ry by (cases i) auto
  qed
qed

lemma example_path_decodes: "getPath example_path = Inr example_path_decoded"
  by (simp add: example_path_def example_path_decoded_def getPath_def eval_defs)

lemma example_trajectory_decodes: "getTrajectory example_trajectory = Inr example_trajectory_decoded"
  by (simp add: example_trajectory_def example_trajectory_decoded_def example_path_def
      example_path_decoded_def getTrajectory_def getPath_def eval_defs)

lemma succeeds_simps [simp]: "succeeds (Inr v)" "\<not> succeeds (Inl e)"
  by (simp_all add: succeeds_def)

lemma succeeds_iff: "succeeds r \<longleftrightarrow> (\<exists>v. r = Inr v)"
  by (cases r) simp_all

lemma getHeader_Inr:
  assumes "getHeader doc = Inr h"
  shows "getMandatoryValueFloat doc ''LayerThickness'' = Inr (layerThickness h)
         \<and> js_gt (layerThickness h) 0"
  using assms unfolding getHeader_def
  by (auto simp: andThen_eq_Inr assert_eq_Inr Let_def)

lemma LoadDocument_Inr:
  assumes "LoadDocument doc = Inr L"
  shows "getHeader doc = Inr (header L) \<and> getSegmentStyles doc = Inr (segmentStyles L)
    \<and> getVelocityProfiles doc = Inr (velocityProfiles L) \<and> getTrajectories doc = Inr (trajectories L)"
  using assms unfolding LoadDocument_def by (auto simp: andThen_eq_Inr)

lemma thickness_read:
  assumes "getElementsByTagName doc ''LayerThickness'' = e # r" "isFloatRegex (textContent e)"
    "textContent e \<noteq> []"
  shows "getMandatoryValueFloat doc ''LayerThickness'' = Inr (JString (textContent e))"
  using assms by (simp add: getMandatoryValueFloat_def getMandatoryValue_def validate_def)

lemma float_m1: "isFloatRegex ''-1.0''" "\<not> js_gt (JString ''-1.0'') 0"
  by (simp_all add: eval_defs)
lemma float_half: "isFloatRegex ''0.5''" "js_gt (JString ''0.5'') 0"
  by (simp_all add: eval_defs)

lemma otherHeaderFieldsValidD:
  assumes "otherHeaderFieldsValid doc"
  obtains v lnum ah df bd where
    "getMandatoryValueString doc ''AmericaMakesSchemaVersion'' = Inr v"
    "getOptionalValueInteger doc ''LayerNum'' = Inr lnum"
    "getOptionalValueFloat doc ''AbsoluteHeight'' = Inr ah"
    "getOptionalValueFloat doc ''DosingFactor'' = Inr df"
    "getOptionalValueString doc ''BuildDescription'' = Inr bd"
    "dateRegex (ToString v)" "\<not> truthy ah \<or> js_gt (the ah) 0" "\<not> truthy df \<or> js_gt (the df) 0"
  using assms unfolding otherHeaderFieldsValid_def
  by (auto split: sum.splits)

lemma header_doc_thickness:
  "getElementsByTagName (header_doc th) ''LayerThickness'' = Element ''LayerThickness'' [Text th] # []"
  by (simp add: header_doc_def getElementsByTagName_def descendants_def)

lemma header_doc_valid: "otherHeaderFieldsValid (header_doc th)"
  by (simp add: otherHeaderFieldsValid_def header_doc_def eval_defs)

lemma header_doc_rest:
  "getSegmentStyles (header_doc th) = Inr []" "getVelocityProfiles (header_doc th) = Inr []"
  "getTrajectories (header_doc th) = Inr []"
  by (simp_all add: header_doc_def getSegmentStyles_def getVelocityProfiles_def
      getTrajectories_def getElementsByTagName_def descendants_def)

lemmas decoder_defs = getHeader_def getVelocityProfile_def getVelocityProfiles_def getWobble_def
  getTraveler_def getSegmentStyle_def getSegmentStyles_def getPath_def getTrajectory_def
  getTrajectories_def LoadDocument_def

lemma getWobble_fails: "\<not> succeeds (getWobble wobbleElem)"
proof
  assume "succeeds (getWobble wobbleElem)"
  then obtain w where "getWobble wobbleElem = Inr w" by (auto simp: succeeds_iff)
  then obtain on where on: "getMandatoryValueInteger wobbleElem ''On'' = Inr on"
    and a: "on = JNumber 0 \<or> on = JNumber 1"
    unfolding getWobble_def by (auto simp: andThen_eq_Inr assert_eq_Inr Let_def)
  from on obtain s where "on = JString s"
    unfolding getMandatoryValueInteger_def by (auto dest: getMandatoryValue_Inr)
  with a show False by simp
qed

lemma sim_refl: "sim e r r" by (simp add: sim_def)

lemma sim_andThen:
  "sim e r' r \<Longrightarrow> (\<And>v. sim e (f' v) (f v)) \<Longrightarrow> sim e (andThen r' f') (andThen r f)"
  by (cases r'; cases r) (auto simp: sim_def)

lemma sim_forEach:
  "(\<And>x. sim e (f' x) (f x)) \<Longrightarrow> sim e (forEach f' xs) (forEach f xs)"
  by (induction xs) (auto intro!: sim_andThen sim_refl)

lemma sim_M:
  assumes "\<And>nd' t' ty'. (nd', t', ty') \<noteq> (nd, t, ty) \<Longrightarrow> M nd' t' ty' = getMandatoryValue nd' t' ty'"
    "getMandatoryValue nd t ty = Inl e"
  shows "sim e (M a b c) (getMandatoryValue a b c)"
  using assms by (cases "(a, b, c) = (nd, t, ty)") (auto simp: sim_def)

lemma sim_getHeader:
  assumes "\<And>a b c. sim e (M a b c) (getMandatoryValue a b c)"
  shows "sim e (getHeaderWith M doc) (getHeader doc)"
  unfolding getHeaderWith_def getHeader_def accessor_defs Let_def
  by (intro sim_andThen assms sim_refl)

lemma sim_getVelocityProfile:
  assumes "\<And>a b c. sim e (M a b c) (getMandatoryValue a b c)"
  shows "sim e (getVelocityProfileWith M x) (getVelocityProfile x)"
  unfolding getVelocityProfileWith_def getVelocityProfile_def accessor_defs Let_def
  by (intro sim_andThen assms sim_refl)

lemma sim_getWobble:
  assumes "\<And>a b c. sim e (M a b c) (getMandatoryValue a b c)"
  shows "sim e (getWobbleWith M x) (getWobble x)"
  unfolding getWobbleWith_def getWobble_def accessor_defs Let_def
  by (intro sim_andThen assms sim_refl)

lemma sim_getTraveler:
  assumes "\<And>a b c. sim e (M a b c) (getMandatoryValue a b c)"
  shows "sim e (getTravelerWith M x) (getTraveler x)"
proof -
  have w: "sim e (case getElementsByTagName x ''Wobble'' of
                [] \<Rightarrow> Inr None
              | wobbleElem # _ \<Rightarrow> andThen (getWobbleWith M wobbleElem) (\<lambda>inner. Inr None))
           (case getElementsByTagName x ''Wobble'' of
                [] \<Rightarrow> Inr None
              | wobbleElem # _ \<Rightarrow> andThen (getWobble wobbleElem) (\<lambda>inner. Inr None))"
    by (cases "getElementsByTagName x ''Wobble''")
       (auto intro!: sim_andThen sim_refl sim_getWobble assms)
  show ?thesis
    unfolding getTravelerWith_def getTraveler_def accessor_defs Let_def
    by (intro sim_andThen w assms sim_refl)
qed

lemma sim_getSegmentStyle:
  assumes "\<And>a b c. sim e (M a b c) (getMandatoryValue a b c)"
  shows "sim e (getSegmentStyleWith M x) (getSegmentStyle x)"
  unfolding getSegmentStyleWith_def getSegmentStyle_def accessor_defs Let_def
  by (intro sim_andThen sim_forEach sim_getTraveler assms sim_refl)

lemma sim_getSegments:
  assumes "\<And>a b c. sim e (M a b c) (getMandatoryValue a b c)"
  shows "sim e (getSegmentsWith M lx ly xs) (getSegments lx ly xs)"
proof (induction xs arbitrary: lx ly)
  case Nil show ?case by (simp add: sim_refl)
next
  case (Cons s xs)
  show ?case
    unfolding getSegmentsWith.simps getSegments.simps accessor_defs Let_def
    by (intro sim_andThen assms sim_refl Cons.IH)
qed

lemma sim_getPath:
  assumes "\<And>a b c. sim e (M a b c) (getMandatoryValue a b c)"
  shows "sim e (getPathWith M x) (getPath x)"
proof -
  have s: "sim e (case getElementsByTagName x ''Start'' of
       [] \<Rightarrow> Inl (TypeError ''Cannot read properties of undefined'')
     | start # _ \<Rightarrow>
         andThen (M start ''X'' (Some Float)) (\<lambda>lastX.
         andThen (M start ''Y'' (Some Float)) (\<lambda>lastY.
         andThen (getSegmentsWith M lastX lastY (getElementsByTagName x ''Segment'')) (\<lambda>segs.
         Inr (p\<lparr> segments := segs \<rparr>)))))
     (case getElementsByTagName x ''Start'' of
       [] \<Rightarrow> Inl (TypeError ''Cannot read properties of undefined'')
     | start # _ \<Rightarrow>
         andThen (getMandatoryValue start ''X'' (Some Float)) (\<lambda>lastX.
         andThen (getMandatoryValue start ''Y'' (Some Float)) (\<lambda>lastY.
         andThen (getSegments lastX lastY (getElementsByTagName x ''Segment'')) (\<lambda>segs.
         Inr (p\<lparr> segments := segs \<rparr>)))))" for p
    by (cases "getElementsByTagName x ''Start''")
       (auto intro!: sim_andThen sim_refl sim_getSegments assms)
  show ?thesis
    unfolding getPathWith_def getPath_def accessor_defs Let_def
    by (intro sim_andThen s assms sim_refl)
qed

lemma sim_getTrajectory:
  assumes "\<And>a b c. sim e (M a b c) (getMandatoryValue a b c)"
  shows "sim e (getTrajectoryWith M x) (getTrajectory x)"
  unfolding getTrajectoryWith_def getTrajectory_def accessor_defs Let_def
  by (intro sim_andThen sim_forEach sim_getPath assms sim_refl)

lemma sim_LoadDocument:
  assumes "\<And>a b c. sim e (M a b c) (getMandatoryValue a b c)"
  shows "sim e (LoadDocumentWith M doc) (LoadDocument doc)"
  unfolding LoadDocumentWith_def LoadDocument_def getSegmentStyles_def getVelocityProfiles_def
    getTrajectories_def
  by (intro sim_andThen sim_forEach sim_getHeader sim_getSegmentStyle sim_getVelocityProfile
      sim_getTrajectory assms sim_refl)


lemma getHeaderWith_eq: "getHeaderWith getMandatoryValue = getHeader"
  by (rule ext) (simp add: getHeaderWith_def getHeader_def accessor_defs)

lemma getVelocityProfileWith_eq: "getVelocityProfileWith getMandatoryValue = getVelocityProfile"
  by (rule ext) (simp add: getVelocityProfileWith_def getVelocityProfile_def accessor_defs)

lemma getWobbleWith_eq: "getWobbleWith getMandatoryValue = getWobble"
  by (rule ext) (simp add: getWobbleWith_def getWobble_def accessor_defs)

lemma getTravelerWith_eq: "getTravelerWith getMandatoryValue = getTraveler"
  by (rule ext)
     (simp add: getTravelerWith_def getTraveler_def accessor_defs getWobbleWith_eq
        cong: list.case_cong)

lemma getSegmentStyleWith_eq: "getSegmentStyleWith getMandatoryValue = getSegmentStyle"
  by (rule ext)
     (simp add: getSegmentStyleWith_def getSegmentStyle_def accessor_defs getTravelerWith_eq)

lemma getSegmentsWith_eq: "getSegmentsWith getMandatoryValue lx ly xs = getSegments lx ly xs"
  by (induction xs arbitrary: lx ly) (simp_all add: accessor_defs)

lemma getPathWith_eq: "getPathWith getMandatoryValue = getPath"
  by (rule ext)
     (simp add: getPathWith_def getPath_def accessor_defs getSegmentsWith_eq
        cong: list.case_cong)

lemma getTrajectoryWith_eq: "getTrajectoryWith getMandatoryValue = getTrajectory"
  by (rule ext) (simp add: getTrajectoryWith_def getTrajectory_def accessor_defs getPathWith_eq)

lemma LoadDocumentWith_eq: "LoadDocumentWith getMandatoryValue = LoadDocument"
  by (rule ext)
     (simp add: LoadDocumentWith_def LoadDocument_def getSegmentStyles_def
        getVelocityProfiles_def getTrajectories_def getHeaderWith_eq getSegmentStyleWith_eq
        getVelocityProfileWith_eq getTrajectoryWith_eq)

text \<open>
  Where no child of an element has a descendant with the tag, the elements the search
  returns are the children with that tag.
\<close>

lemma getElementsByTagName_children:
  assumes "t \<noteq> ''*''" "\<And>k. k \<in> set kids \<Longrightarrow> getElementsByTagName k t = []"
  shows "getElementsByTagName (Element n kids) t
           = filter (\<lambda>k. tagName k = t) (childElements (Element n kids))"
proof -
  have "filter (\<lambda>e. tagName e = t) (concat (map elements ks))
          = filter (\<lambda>k. tagName k = t)
              (filter (\<lambda>k. case k of Element m ms \<Rightarrow> True | Text s \<Rightarrow> False) ks)"
    if "\<And>k. k \<in> set ks \<Longrightarrow> filter (\<lambda>e. tagName e = t) (descendants k) = []" for ks
    using that
  proof (induction ks)
    case Nil then show ?case by simp
  next
    case (Cons k ks)
    from Cons.prems have ih: "filter (\<lambda>e. tagName e = t) (concat (map elements ks))
          = filter (\<lambda>k. tagName k = t)
              (filter (\<lambda>k. case k of Element m ms \<Rightarrow> True | Text s \<Rightarrow> False) ks)"
      by (intro Cons.IH) auto
    from Cons.prems have k: "filter (\<lambda>e. tagName e = t) (descendants k) = []" by simp
    show ?case using ih k by (cases k) (auto simp: descendants_def)
  qed
  with assms show ?thesis
    by (simp add: getElementsByTagName_def descendants_def)
qed

section \<open>Encoding, parsing and decoding a valid layer\<close>

lemma xml_char_name: "is_name_char c \<Longrightarrow> xml_char c"
  by (cases c) (auto simp: is_name_char_def is_name_start_def is_digit_def xml_char_def)

lemma name_char_not_gt: "is_name_char c \<Longrightarrow> c \<noteq> CHR ''>''"
  by (auto simp: is_name_char_def is_name_start_def is_digit_def)

lemma name_start_char: "is_name_start c \<Longrightarrow> is_name_char c"
  by (simp add: is_name_char_def)

lemma name_start_not_special:
  "is_name_start c \<Longrightarrow> c \<noteq> CHR ''?'' \<and> c \<noteq> CHR ''!'' \<and> c \<noteq> CHR ''/''"
  by (auto simp: is_name_start_def)

lemma run_text:
  "list_all text_char s \<Longrightarrow>
   foldl step (PState Content buf st ks) s = PState Content (buf @ s) st ks"
  by (induction s arbitrary: buf) (auto simp: text_char_def xml_char_def)

lemma run_start_name:
  "list_all is_name_char n' \<Longrightarrow>
   foldl step (PState (StartTag n) buf st ks) n' = PState (StartTag (n @ n')) buf st ks"
  by (induction n' arbitrary: n) (auto simp: name_char_not_gt)

lemma run_end_name:
  "list_all is_name_char n' \<Longrightarrow>
   foldl step (PState (EndTag n) buf st ks) n' = PState (EndTag (n @ n')) buf st ks"
  by (induction n' arbitrary: n) (auto simp: name_char_not_gt)

lemma run_open:
  assumes "is_name nm" "st \<noteq> [] \<or> ks = []"
  shows "foldl step (PState TagOpen buf st ks) (nm @ ''>'')
           = PState Content [] ((nm, ks) # st) []"
proof -
  from assms(1) obtain c cs where nm: "nm = c # cs" and c: "is_name_start c"
    and cs: "list_all is_name_char cs"
    by (auto simp: is_name_def split: list.splits)
  show ?thesis
    using c cs assms(2) name_start_not_special[OF c]
    by (auto simp: nm run_start_name)
qed

lemma run_close:
  assumes "is_name nm"
  shows "foldl step (PState TagOpen buf ((nm, ks0) # st) ks) (''/'' @ nm @ ''>'')
           = PState Content [] st (ks0 @ [Element nm ks])"
proof -
  from assms(1) have "list_all is_name_char nm"
    by (auto simp: is_name_def name_start_char split: list.splits)
  then show ?thesis by (simp add: run_end_name)
qed

lemma text_char_xml: "list_all text_char s \<Longrightarrow> list_all xml_char s"
  by (induction s) (auto simp: text_char_def)

lemma name_xml: "is_name nm \<Longrightarrow> list_all xml_char nm"
  by (auto simp: is_name_def list_all_iff xml_char_name name_start_char split: list.splits)

lemma xml_char_lits [simp]: "xml_char (CHR ''<'')" "xml_char (CHR ''>'')" "xml_char (CHR ''/'')"
  "xml_char (CHR 0x0A)"
  by (simp_all add: xml_char_def)

lemma text_char_nl [simp]: "text_char (CHR 0x0A)"
  by (simp add: text_char_def)

lemma lines_nil: "lines [] []"
  by (simp add: lines_def)

lemma lines_append: "lines a ka \<Longrightarrow> lines b kb \<Longrightarrow> lines (a @ b) (ka @ kb)"
  by (auto simp: lines_def)

lemma lines_concat:
  "(\<And>x. x \<in> set xs \<Longrightarrow> lines (f x) (g x)) \<Longrightarrow> lines (concat (map f xs)) (concat (map g xs))"
  by (induction xs) (auto simp: lines_nil intro!: lines_append)

lemma lines_opt:
  "(\<And>v. ov = Some v \<Longrightarrow> lines (f v) (g v)) \<Longrightarrow>
   lines (case ov of None \<Rightarrow> [] | Some v \<Rightarrow> f v) (case ov of None \<Rightarrow> [] | Some v \<Rightarrow> g v)"
  by (cases ov) (auto simp: lines_nil)

lemma run_append3: "foldl step st (a @ b) = foldl step (foldl step st a) b"
  by simp

lemma lines_leaf:
  assumes "list_all text_char ind" "is_name nm" "clean s"
  shows "lines (leaf ind nm s) (leafN ind nm s)"
proof -
  have x: "list_all xml_char (leaf ind nm s)"
    using assms by (simp add: leaf_def clean_def text_char_xml name_xml)
  have r: "foldl step (PState Content ''\<newline>'' st ks) (leaf ind nm s)
         = PState Content ''\<newline>'' st (ks @ leafN ind nm s)" if st: "st \<noteq> []" for st ks
  proof -
    let ?ks = "ks @ [Text (''\<newline>'' @ ind)]"
    let ?st = "(nm, ?ks) # st"
    have split: "leaf ind nm s
         = ind @ ([CHR ''<''] @ ((nm @ ''>'') @ (s @ ([CHR ''<''] @ ((''/'' @ nm @ ''>'') @ ''\<newline>'')))))"
      by (simp add: leaf_def)
    have "foldl step (PState Content ''\<newline>'' st ks) (leaf ind nm s)
        = foldl step (foldl step (foldl step (foldl step (foldl step (foldl step
            (foldl step (PState Content ''\<newline>'' st ks) ind) [CHR ''<'']) (nm @ ''>'')) s)
              [CHR ''<'']) (''/'' @ nm @ ''>'')) ''\<newline>''"
      unfolding split by (simp only: run_append3)
    also have "foldl step (PState Content ''\<newline>'' st ks) ind = PState Content (''\<newline>'' @ ind) st ks"
      using assms(1) by (rule run_text)
    also have "foldl step (PState Content (''\<newline>'' @ ind) st ks) [CHR ''<''] = PState TagOpen [] st ?ks"
      using st by (simp add: flush_def)
    also have "foldl step (PState TagOpen [] st ?ks) (nm @ ''>'') = PState Content [] ?st []"
      using assms(2) st by (intro run_open) auto
    also have "foldl step (PState Content [] ?st []) s = PState Content s ?st []"
      using assms(3) run_text[of s "[]"] by (simp add: clean_def)
    also have "foldl step (PState Content s ?st []) [CHR ''<''] = PState TagOpen [] ?st [Text s]"
      using assms(3) by (simp add: flush_def clean_def)
    also have "foldl step (PState TagOpen [] ?st [Text s]) (''/'' @ nm @ ''>'')
         = PState Content [] st (?ks @ [Element nm [Text s]])"
      using assms(2) by (rule run_close)
    also have "foldl step (PState Content [] st (?ks @ [Element nm [Text s]])) ''\<newline>''
         = PState Content ''\<newline>'' st (ks @ leafN ind nm s)"
      by (simp add: leafN_def)
    finally show ?thesis .
  qed
  from x r show ?thesis by (simp add: lines_def)
qed

lemma lines_elem:
  assumes "list_all text_char ind" "is_name nm" "lines body kids"
  shows "lines (elem ind nm body) (elemN ind nm kids)"
proof -
  have x: "list_all xml_char (elem ind nm body)"
    using assms by (simp add: elem_def lines_def text_char_xml name_xml)
  have r: "foldl step (PState Content ''\<newline>'' st ks) (elem ind nm body)
         = PState Content ''\<newline>'' st (ks @ elemN ind nm kids)" if st: "st \<noteq> []" for st ks
  proof -
    let ?ks = "ks @ [Text (''\<newline>'' @ ind)]"
    let ?st = "(nm, ?ks) # st"
    let ?kids = "kids @ [Text (''\<newline>'' @ ind)]"
    have split: "elem ind nm body
         = ind @ ([CHR ''<''] @ ((nm @ ''>'') @ (''\<newline>'' @ (body @ (ind @ ([CHR ''<'']
             @ ((''/'' @ nm @ ''>'') @ ''\<newline>'')))))))"
      by (simp add: elem_def)
    have "foldl step (PState Content ''\<newline>'' st ks) (elem ind nm body)
        = foldl step (foldl step (foldl step (foldl step (foldl step (foldl step (foldl step
            (foldl step (foldl step (PState Content ''\<newline>'' st ks) ind) [CHR ''<''])
              (nm @ ''>'')) ''\<newline>'') body) ind) [CHR ''<'']) (''/'' @ nm @ ''>'')) ''\<newline>''"
      unfolding split by (simp only: run_append3)
    also have "foldl step (PState Content ''\<newline>'' st ks) ind = PState Content (''\<newline>'' @ ind) st ks"
      using assms(1) by (rule run_text)
    also have "foldl step (PState Content (''\<newline>'' @ ind) st ks) [CHR ''<''] = PState TagOpen [] st ?ks"
      using st by (simp add: flush_def)
    also have "foldl step (PState TagOpen [] st ?ks) (nm @ ''>'') = PState Content [] ?st []"
      using assms(2) st by (intro run_open) auto
    also have "foldl step (PState Content [] ?st []) ''\<newline>'' = PState Content ''\<newline>'' ?st []"
      by simp
    also have "foldl step (PState Content ''\<newline>'' ?st []) body = PState Content ''\<newline>'' ?st kids"
      using assms(3) by (simp add: lines_def)
    also have "foldl step (PState Content ''\<newline>'' ?st kids) ind
         = PState Content (''\<newline>'' @ ind) ?st kids"
      using assms(1) by (rule run_text)
    also have "foldl step (PState Content (''\<newline>'' @ ind) ?st kids) [CHR ''<'']
         = PState TagOpen [] ?st ?kids"
      by (simp add: flush_def)
    also have "foldl step (PState TagOpen [] ?st ?kids) (''/'' @ nm @ ''>'')
         = PState Content [] st (?ks @ [Element nm ?kids])"
      using assms(2) by (rule run_close)
    also have "foldl step (PState Content [] st (?ks @ [Element nm ?kids])) ''\<newline>''
         = PState Content ''\<newline>'' st (ks @ elemN ind nm kids)"
      by (simp add: elemN_def)
    finally show ?thesis .
  qed
  from x r show ?thesis by (simp add: lines_def)
qed

lemma digit_text_char: "is_digit c \<Longrightarrow> text_char c"
  by (cases c) (auto simp: is_digit_def text_char_def xml_char_def)

lemma digits_clean: "all_digits s \<Longrightarrow> list_all text_char s"
  by (auto simp: all_digits_def list_all_iff digit_text_char)

lemma isInt_textual: "isInt v \<Longrightarrow> textual v"
  by (auto simp: isInt_def textual_def clean_def isIntegerRegex_def digits_clean split: jsval.splits)

lemma strip_sign_cases:
  "s = snd (strip_sign s) \<or> s = CHR ''-'' # snd (strip_sign s) \<or> s = CHR ''+'' # snd (strip_sign s)"
  by (cases s) auto

lemma float_clean:
  assumes "isFloatRegex s"
  shows "clean s"
proof -
  let ?r = "snd (strip_sign s)"
  let ?pre = "takeWhile is_digit ?r"
  let ?post = "dropWhile is_digit ?r"
  have r: "?r = ?pre @ ?post" by simp
  have pre: "list_all text_char ?pre"
    by (auto simp: list_all_iff dest!: set_takeWhileD intro: digit_text_char)
  have post: "list_all text_char ?post \<and> (?pre \<noteq> [] \<or> ?post \<noteq> [])"
  proof (cases "?post = []")
    case True
    have a: "list_all text_char ?post" unfolding True by simp
    from assms True have b: "?pre \<noteq> []" by (simp add: isFloatRegex_def Let_def)
    from a b show ?thesis by blast
  next
    case False
    with assms have h: "hd ?post = CHR ''.''" "all_digits (tl ?post)"
      by (simp_all add: isFloatRegex_def Let_def)
    from False obtain c cs where p: "?post = c # cs" by (cases ?post) auto
    with h have "c = CHR ''.''" "all_digits cs" by simp_all
    then have "list_all text_char (c # cs)"
      by (simp add: digits_clean text_char_def xml_char_def)
    with p False show ?thesis by simp
  qed
  from pre post have rr: "list_all text_char ?r \<and> ?r \<noteq> []"
    by (metis append_is_Nil_conv list_all_append r)
  have sg: "text_char (CHR ''-'')" "text_char (CHR ''+'')"
    by (simp_all add: text_char_def xml_char_def)
  from strip_sign_cases[of s] rr sg show ?thesis
    unfolding clean_def by (metis list.distinct(1) list.pred_inject(2))
qed

lemma isFloat_textual: "isFloat v \<Longrightarrow> textual v"
  by (auto simp: isFloat_def textual_def float_clean split: jsval.splits)

lemma date_clean: "dateRegex s \<Longrightarrow> clean s"
proof -
  assume d: "dateRegex s"
  have m: "text_char (CHR ''-'')" by (simp add: text_char_def xml_char_def)
  from d m show ?thesis
    by (auto simp: dateRegex_def clean_def digit_text_char split: list.splits)
qed

lemma isDate_textual: "isDate v \<Longrightarrow> textual v"
  by (auto simp: isDate_def textual_def date_clean split: jsval.splits)

lemma lines_leafv:
  assumes "list_all text_char ind" "is_name nm" "textual v"
  shows "lines (leaf ind nm (ToString v)) (leafN ind nm (ToString v))"
  using assms by (auto simp: textual_def split: jsval.splits intro!: lines_leaf)

lemma lines_optS:
  assumes "list_all text_char ind" "is_name nm" "isOpt textual ov"
  shows "lines (optS ov ind nm) (optN ov ind nm)"
  using assms by (cases ov) (auto simp: optS_def optN_def isOpt_def lines_nil intro!: lines_leafv)

lemma isOpt_mono: "isOpt P ov \<Longrightarrow> (\<And>v. P v \<Longrightarrow> Q v) \<Longrightarrow> isOpt Q ov"
  by (cases ov) (auto simp: isOpt_def)

lemma names:
  "is_name ''Header''" "is_name ''AmericaMakesSchemaVersion''" "is_name ''LayerNum''"
  "is_name ''LayerThickness''" "is_name ''AbsoluteHeight''" "is_name ''DosingFactor''"
  "is_name ''BuildDescription''" "is_name ''SegmentStyleList''" "is_name ''SegmentStyle''"
  "is_name ''ID''" "is_name ''VelocityProfileID''" "is_name ''LaserMode''"
  "is_name ''Traveler''" "is_name ''SyncDelay''" "is_name ''Power''" "is_name ''SpotSize''"
  "is_name ''VelocityProfileList''" "is_name ''VelocityProfile''" "is_name ''Velocity''"
  "is_name ''Mode''" "is_name ''LaserOnDelay''" "is_name ''LaserOffDelay''"
  "is_name ''JumpDelay''" "is_name ''MarkDelay''" "is_name ''PolygonDelay''"
  "is_name ''TrajectoryList''" "is_name ''Trajectory''" "is_name ''TrajectoryID''"
  "is_name ''PathProcessingMode''" "is_name ''Path''" "is_name ''Type''" "is_name ''Tag''"
  "is_name ''NumSegments''" "is_name ''SkyWritingMode''" "is_name ''Start''" "is_name ''X''"
  "is_name ''Y''" "is_name ''Segment''" "is_name ''SegmentID''" "is_name ''SegStyle''"
  "is_name ''End''" "is_name ''Layer''"
  by (simp_all add: is_name_def is_name_char_def is_name_start_def)

lemma indents:
  "list_all text_char []" "list_all text_char ''  ''" "list_all text_char ''    ''"
  "list_all text_char ''      ''" "list_all text_char ''        ''"
  "list_all text_char ''          ''"
  by (simp_all add: text_char_def xml_char_def)

lemma forEach_map: "(\<And>x. x \<in> set xs \<Longrightarrow> f x = Inr (g x)) \<Longrightarrow> forEach f xs = Inr (map g xs)"
  by (induction xs) auto

lemma textual_lits:
  "textual (JString ''Delay'')" "textual (JString ''Auto'')" "textual (JString ''Independent'')"
  "textual (JString ''FollowMe'')" "textual (JString ''hatch'')" "textual (JString ''contour'')"
  "textual (JString ''sequential'')" "textual (JString ''concurrent'')"
  by (simp_all add: textual_def clean_def text_char_def xml_char_def)

lemma header_string:
  "GetHeaderString L =
     elem [] ''Header''
       (leaf ''  '' ''AmericaMakesSchemaVersion'' (ToString (americaMakesSchemaVersion (header L)))
        @ optS (layerNum (header L)) ''  '' ''LayerNum''
        @ leaf ''  '' ''LayerThickness'' (ToString (layerThickness (header L)))
        @ optS (absoluteHeight (header L)) ''  '' ''AbsoluteHeight''
        @ optS (dosingFactor (header L)) ''  '' ''DosingFactor''
        @ optS (buildDescription (header L)) ''  '' ''BuildDescription'')"
  by (simp add: GetHeaderString_def elem_def leaf_def optS_def split: option.splits)

lemma header_lines:
  assumes "validHeader (header L)"
  shows "lines (GetHeaderString L) (elemN [] ''Header'' (header_kids (header L)))"
proof -
  from assms have t: "textual (americaMakesSchemaVersion (header L))"
    "isOpt textual (layerNum (header L))" "textual (layerThickness (header L))"
    "isOpt textual (absoluteHeight (header L))" "isOpt textual (dosingFactor (header L))"
    "isOpt textual (buildDescription (header L))"
    by (auto simp: validHeader_def isDate_textual isInt_textual isFloat_textual elim: isOpt_mono)
  show ?thesis
    unfolding header_string header_kids_def
    by (intro lines_elem lines_append lines_leafv lines_optS names indents t)
qed

lemma traveler_string:
  "wobble t = None \<Longrightarrow>
   TravelerString t =
     elem ''    '' ''Traveler''
       (leaf ''      '' ''ID'' (ToString (tv_ID t))
        @ optS (syncDelay t) ''      '' ''SyncDelay''
        @ optS (power t) ''      '' ''Power''
        @ optS (spotSize t) ''      '' ''SpotSize'')"
  by (simp add: TravelerString_def elem_def leaf_def optS_def split: option.splits)

lemma traveler_lines:
  assumes "validTraveler t"
  shows "lines (TravelerString t) (traveler_nodes t)"
proof -
  from assms have w: "wobble t = None" by (simp add: validTraveler_def)
  from assms have t: "textual (tv_ID t)" "isOpt textual (syncDelay t)" "isOpt textual (power t)"
    "isOpt textual (spotSize t)"
    by (auto simp: validTraveler_def isInt_textual isFloat_textual elim: isOpt_mono)
  show ?thesis
    unfolding traveler_string[OF w] traveler_nodes_def traveler_kids_def
    by (intro lines_elem lines_append lines_leafv lines_optS names indents t)
qed

lemma style_string:
  "SegmentStyleString s =
     elem ''  '' ''SegmentStyle''
       (leaf ''    '' ''ID'' (ToString (ss_ID s))
        @ leaf ''    '' ''VelocityProfileID'' (ToString (velocityProfileID s))
        @ optS (laserMode s) ''    '' ''LaserMode''
        @ concat (map TravelerString (travelers s)))"
  by (simp add: SegmentStyleString_def elem_def leaf_def optS_def split: option.splits)

lemma style_lines:
  assumes "validSegmentStyle s"
  shows "lines (SegmentStyleString s) (style_nodes s)"
proof -
  from assms have t: "textual (ss_ID s)" "textual (velocityProfileID s)"
    by (auto simp: validSegmentStyle_def)
  from assms have lm: "isOpt textual (laserMode s)"
    by (cases "laserMode s") (auto simp: validSegmentStyle_def isOpt_def textual_lits split: if_splits)
  from assms have tv: "\<And>x. x \<in> set (travelers s) \<Longrightarrow> lines (TravelerString x) (traveler_nodes x)"
    by (auto simp: validSegmentStyle_def list_all_iff intro: traveler_lines)
  show ?thesis
    unfolding style_string style_nodes_def style_kids_def
    by (intro lines_elem lines_append lines_leafv lines_optS lines_concat names indents t lm tv)
qed

lemma styles_lines:
  assumes "list_all validSegmentStyle (segmentStyles L)"
  shows "lines (GetSegmentStylesString L)
           (elemN [] ''SegmentStyleList'' (concat (map style_nodes (segmentStyles L))))"
proof -
  have e: "GetSegmentStylesString L
      = elem [] ''SegmentStyleList'' (concat (map SegmentStyleString (segmentStyles L)))"
    by (simp add: GetSegmentStylesString_def elem_def)
  from assms have s: "\<And>x. x \<in> set (segmentStyles L) \<Longrightarrow> lines (SegmentStyleString x) (style_nodes x)"
    by (auto simp: list_all_iff intro: style_lines)
  show ?thesis unfolding e by (intro lines_elem lines_concat names indents s)
qed

lemma profile_string:
  "VelocityProfileString vp =
     elem ''  '' ''VelocityProfile''
       (leaf ''    '' ''ID'' (ToString (vp_ID vp))
        @ leaf ''    '' ''Velocity'' (ToString (velocity vp))
        @ leaf ''    '' ''Mode'' (ToString (mode vp))
        @ leaf ''    '' ''LaserOnDelay'' (ToString (laserOnDelay vp))
        @ leaf ''    '' ''LaserOffDelay'' (ToString (laserOffDelay vp))
        @ leaf ''    '' ''JumpDelay'' (ToString (jumpDelay vp))
        @ leaf ''    '' ''MarkDelay'' (ToString (markDelay vp))
        @ leaf ''    '' ''PolygonDelay'' (ToString (polygonDelay vp)))"
  by (simp add: VelocityProfileString_def elem_def leaf_def)

lemma profile_lines:
  assumes "validVelocityProfile vp"
  shows "lines (VelocityProfileString vp) (profile_nodes vp)"
proof -
  from assms have t: "textual (vp_ID vp)" "textual (velocity vp)" "textual (mode vp)"
    "textual (laserOnDelay vp)" "textual (laserOffDelay vp)" "textual (jumpDelay vp)"
    "textual (markDelay vp)" "textual (polygonDelay vp)"
    by (auto simp: validVelocityProfile_def isFloat_textual textual_lits)
  show ?thesis
    unfolding profile_string profile_nodes_def profile_kids_def
    by (intro lines_elem lines_append lines_leafv names indents t)
qed

lemma profiles_lines:
  assumes "list_all validVelocityProfile (velocityProfiles L)"
  shows "lines (GetVelocityProfilesString L)
           (elemN [] ''VelocityProfileList'' (concat (map profile_nodes (velocityProfiles L))))"
proof -
  have e: "GetVelocityProfilesString L
      = elem [] ''VelocityProfileList'' (concat (map VelocityProfileString (velocityProfiles L)))"
    by (simp add: GetVelocityProfilesString_def elem_def)
  from assms have s: "\<And>x. x \<in> set (velocityProfiles L) \<Longrightarrow> lines (VelocityProfileString x) (profile_nodes x)"
    by (auto simp: list_all_iff intro: profile_lines)
  show ?thesis unfolding e by (intro lines_elem lines_concat names indents s)
qed

lemma segment_string:
  "SegmentString sg =
     elem ''      '' ''Segment''
       (optS (segmentID sg) ''        '' ''SegmentID''
        @ leaf ''        '' ''SegStyle'' (ToString (segStyle sg))
        @ elem ''        '' ''End''
            (leaf ''          '' ''X'' (ToString (x2 sg)) @ leaf ''          '' ''Y'' (ToString (y2 sg))))"
  by (simp add: SegmentString_def elem_def leaf_def optS_def split: option.splits)

lemma segment_lines:
  assumes "validSegment sg"
  shows "lines (SegmentString sg) (segment_nodes sg)"
proof -
  from assms have t: "isOpt textual (segmentID sg)" "textual (segStyle sg)" "textual (x2 sg)"
    "textual (y2 sg)"
    by (auto simp: validSegment_def isFloat_textual)
  show ?thesis
    unfolding segment_string segment_nodes_def segment_kids_def
    by (intro lines_elem lines_append lines_leafv lines_optS names indents t)
qed

lemma path_string:
  assumes "validPath p"
  shows "PathString p = Inr (path_text p)"
proof -
  from assms have g: "js_gt (numSegments p) 0" by (simp add: validPath_def)
  from assms obtain s0 rest where s: "segments p = s0 # rest"
    by (cases "segments p") (auto simp: validPath_def)
  show ?thesis
    using g s by (simp add: PathString_def path_text_def elem_def leaf_def)
qed

lemma path_lines:
  assumes "validPath p"
  shows "lines (path_text p) (path_nodes p)"
proof -
  from assms obtain s0 rest where s: "segments p = s0 # rest"
    by (cases "segments p") (auto simp: validPath_def)
  from assms s have t: "textual (p_type p)" "textual (p_tag p)" "textual (numSegments p)"
    "textual (skyWritingMode p)" "textual (x1 (hd (segments p)))" "textual (y1 (hd (segments p)))"
    by (auto simp: validPath_def isInt_textual isFloat_textual textual_lits)
  from assms have sg: "\<And>x. x \<in> set (segments p) \<Longrightarrow> lines (SegmentString x) (segment_nodes x)"
    by (auto simp: validPath_def list_all_iff intro: segment_lines)
  show ?thesis
    unfolding path_text_def path_nodes_def path_kids_def
    by (intro lines_elem lines_append lines_leafv lines_concat names indents t sg)
qed

lemma trajectory_string:
  assumes "validTrajectory t"
  shows "TrajectoryString t = Inr (trajectory_text t)"
proof -
  from assms have "\<And>x. x \<in> set (paths t) \<Longrightarrow> PathString x = Inr (path_text x)"
    by (auto simp: validTrajectory_def list_all_iff intro: path_string)
  then have "forEach PathString (paths t) = Inr (map path_text (paths t))"
    by (rule forEach_map)
  then show ?thesis
    by (simp add: TrajectoryString_def trajectory_text_def elem_def leaf_def)
qed

lemma trajectory_lines:
  assumes "validTrajectory t"
  shows "lines (trajectory_text t) (trajectory_nodes t)"
proof -
  from assms have t: "textual (trajectoryID t)" "textual (pathProcessingMode t)"
    by (auto simp: validTrajectory_def textual_lits)
  from assms have ps: "\<And>x. x \<in> set (paths t) \<Longrightarrow> lines (path_text x) (path_nodes x)"
    by (auto simp: validTrajectory_def list_all_iff intro: path_lines)
  show ?thesis
    unfolding trajectory_text_def trajectory_nodes_def trajectory_kids_def
    by (intro lines_elem lines_append lines_leafv lines_concat names indents t ps)
qed

lemma trajectories_string:
  assumes "list_all validTrajectory (trajectories L)"
  shows "GetTrajectoriesString L = Inr (trajectories_text L)"
proof -
  from assms have "\<And>x. x \<in> set (trajectories L) \<Longrightarrow> TrajectoryString x = Inr (trajectory_text x)"
    by (auto simp: list_all_iff intro: trajectory_string)
  then have "forEach TrajectoryString (trajectories L) = Inr (map trajectory_text (trajectories L))"
    by (rule forEach_map)
  then show ?thesis
    by (simp add: GetTrajectoriesString_def trajectories_text_def elem_def)
qed

lemma trajectories_lines:
  assumes "list_all validTrajectory (trajectories L)"
  shows "lines (trajectories_text L)
           (elemN [] ''TrajectoryList'' (concat (map trajectory_nodes (trajectories L))))"
proof -
  from assms have s: "\<And>x. x \<in> set (trajectories L) \<Longrightarrow> lines (trajectory_text x) (trajectory_nodes x)"
    by (auto simp: list_all_iff intro: trajectory_lines)
  show ?thesis unfolding trajectories_text_def by (intro lines_elem lines_concat names indents s)
qed

lemma layer_lines:
  assumes "validLayer L"
  shows "lines (layer_text L) (layer_kids L)"
  using assms unfolding layer_text_def layer_kids_def validLayer_def
  by (intro lines_append header_lines styles_lines profiles_lines trajectories_lines) auto

lemma export_string:
  assumes "validLayer L"
  shows "ExportXML L =
     Inr (''<?xml version=\"1.0\"?><!--Scan file created using OSU CDME's cdme-scangen-ui.-->\<newline><Layer>\<newline>''
          @ layer_text L @ ''\<newline></Layer>'')"
  using assms trajectories_string[of L]
  by (simp add: ExportXML_def layer_text_def validLayer_def)

lemma parse_layer:
  assumes "lines body kids"
  shows "parseFromString
           (''<?xml version=\"1.0\"?><!--Scan file created using OSU CDME's cdme-scangen-ui.-->\<newline><Layer>\<newline>''
            @ body @ ''\<newline></Layer>'')
         = Element ''#document'' [Element ''Layer'' (kids @ [Text ''\<newline>\<newline>''])]"
proof -
  let ?pro = "''<?xml version=\"1.0\"?><!--Scan file created using OSU CDME's cdme-scangen-ui.-->\<newline><Layer>\<newline>''"
  have x: "list_all xml_char (?pro @ body @ ''\<newline></Layer>'')"
    using assms by (simp add: lines_def xml_char_def)
  have 1: "foldl step (PState Content [] [] []) ?pro = PState Content ''\<newline>'' [(''Layer'', [])] []"
    by (simp add: flush_def is_space_def is_name_start_def is_name_char_def ends_cdata_def)
  have 2: "foldl step (PState Content ''\<newline>'' [(''Layer'', [])] []) body
         = PState Content ''\<newline>'' [(''Layer'', [])] kids"
    using assms by (simp add: lines_def)
  have 3: "foldl step (PState Content ''\<newline>'' [(''Layer'', [])] kids) ''\<newline></Layer>''
         = PState Content [] [] [Element ''Layer'' (kids @ [Text ''\<newline>\<newline>''])]"
    by (simp add: flush_def is_name_start_def is_name_char_def ends_cdata_def)
  have "foldl step (PState Content [] [] []) (?pro @ body @ ''\<newline></Layer>'')
      = foldl step (foldl step (foldl step (PState Content [] [] []) ?pro) body) ''\<newline></Layer>''"
    by (simp only: run_append3)
  also note 1
  also note 2
  also note 3
  finally have r: "foldl step (PState Content [] [] []) (?pro @ body @ ''\<newline></Layer>'')
      = PState Content [] [] [Element ''Layer'' (kids @ [Text ''\<newline>\<newline>''])]" .
  show ?thesis
    unfolding parseFromString_def using x r
    by (simp only: if_True pstate.case pmode.case list.case flush_def option.case refl)
qed

lemma parse_export:
  assumes "validLayer L"
  shows "\<exists>xml. ExportXML L = Inr xml \<and> parseFromString xml = document_of L"
  using export_string[OF assms] parse_layer[OF layer_lines[OF assms]]
  by (simp add: document_of_def)

lemma getElementsByTagName_find:
  "t \<noteq> ''*'' \<Longrightarrow> getElementsByTagName (Element n ks) t = findTag t ks"
  by (simp add: getElementsByTagName_def descendants_def findTag_def)

lemma find_Nil [simp]: "findTag t [] = []"
  by (simp add: findTag_def)

lemma find_append [simp]: "findTag t (a @ b) = findTag t a @ findTag t b"
  by (simp add: findTag_def)

lemma find_Text [simp]: "findTag t (Text s # ks) = findTag t ks"
  by (simp add: findTag_def)

lemma find_Element [simp]:
  "findTag t (Element n kids # ks) = (if n = t then [Element n kids] else []) @ findTag t kids @ findTag t ks"
  by (simp add: findTag_def)

lemma find_leafN [simp]: "findTag t (leafN ind nm s) = (if nm = t then [Element nm [Text s]] else [])"
  by (simp add: leafN_def)

lemma find_optN [simp]:
  "findTag t (optN ov ind nm)
     = (if nm = t then (case ov of None \<Rightarrow> [] | Some v \<Rightarrow> [Element nm [Text (ToString v)]])
        else [])"
  by (simp add: optN_def split: option.splits)

lemma find_elemN [simp]:
  "findTag t (elemN ind nm kids)
     = (if nm = t then [Element nm (kids @ [Text (''\<newline>'' @ ind)])] else []) @ findTag t kids"
  by (simp add: elemN_def)

lemma find_concat [simp]: "findTag t (concat (map f xs)) = concat (map (\<lambda>x. findTag t (f x)) xs)"
  by (induction xs) simp_all

lemma concat_map_Nil [simp]: "concat (map (\<lambda>x. []) xs) = []"
  by (induction xs) simp_all

lemma concat_map_single [simp]: "concat (map (\<lambda>x. [f x]) xs) = map f xs"
  by (induction xs) simp_all

lemma valid_for_text: "valid_for ty v \<Longrightarrow> \<exists>s. v = JString s \<and> s \<noteq> [] \<and> validate t s ty = Inr ()"
  by (cases v; cases ty) (auto simp: valid_for_def validate_def split: kind.splits)

lemma mand_read:
  assumes "t \<noteq> ''*''" "findTag t ks = Element t [Text (ToString v)] # rest" "valid_for ty v"
  shows "getMandatoryValue (Element n ks) t ty = Inr v"
proof -
  from valid_for_text[OF assms(3), of t] obtain s where
    s: "v = JString s" "s \<noteq> []" "validate t s ty = Inr ()" by blast
  show ?thesis
    using assms(1,2) s by (simp add: getMandatoryValue_def getElementsByTagName_find)
qed

lemma opt_read:
  assumes "t \<noteq> ''*''"
    "findTag t ks = (case ov of None \<Rightarrow> [] | Some v \<Rightarrow> [Element t [Text (ToString v)]])"
    "isOpt (valid_for ty) ov"
  shows "getOptionalValue (Element n ks) t ty = Inr ov"
proof (cases ov)
  case None
  with assms show ?thesis by (simp add: getOptionalValue_def getElementsByTagName_find)
next
  case (Some v)
  with assms(3) have "valid_for ty v" by (simp add: isOpt_def)
  from valid_for_text[OF this, of t] obtain s where
    s: "v = JString s" "s \<noteq> []" "validate t s ty = Inr ()" by blast
  show ?thesis
    using assms(1,2) s Some by (simp add: getOptionalValue_def getElementsByTagName_find)
qed

lemma valid_for_textual: "textual v \<Longrightarrow> valid_for None v"
  by (auto simp: valid_for_def textual_def clean_def split: jsval.splits)

lemma valid_for_date: "isDate v \<Longrightarrow> valid_for None v"
  using date_clean by (auto simp: valid_for_def isDate_def clean_def split: jsval.splits)

lemma valid_for_int: "isInt v \<Longrightarrow> valid_for (Some Integer) v"
  by (auto simp: valid_for_def isInt_def split: jsval.splits)

lemma valid_for_float: "isFloat v \<Longrightarrow> valid_for (Some Float) v"
  using float_clean by (auto simp: valid_for_def isFloat_def clean_def split: jsval.splits)

lemmas valid_for_intros = valid_for_textual valid_for_int valid_for_float

lemma forEach_decode:
  "(\<And>x. x \<in> set xs \<Longrightarrow> f (g x) = Inr x) \<Longrightarrow> forEach f (map g xs) = Inr xs"
  by (induction xs) auto

lemma decode_traveler:
  assumes "validTraveler t"
  shows "getTraveler (traveler_elem t) = Inr t"
proof -
  from assms have v: "valid_for (Some Integer) (tv_ID t)" "isOpt (valid_for (Some Integer)) (syncDelay t)"
    "isOpt (valid_for (Some Float)) (power t)" "isOpt (valid_for (Some Float)) (spotSize t)"
    by (auto simp: validTraveler_def intro: valid_for_intros elim!: isOpt_mono)
  let ?ks = "traveler_kids t @ [Text (''\<newline>'' @ ''    '')]"
  have w: "getElementsByTagName (traveler_elem t) ''Wobble'' = []"
    by (simp add: traveler_elem_def getElementsByTagName_find traveler_kids_def split: option.splits)
  have i: "getMandatoryValueInteger (traveler_elem t) ''ID'' = Inr (tv_ID t)"
    unfolding getMandatoryValueInteger_def traveler_elem_def
    by (rule mand_read[OF _ _ v(1)]) (simp_all add: traveler_kids_def split: option.splits)
  have sd: "getOptionalValueInteger (traveler_elem t) ''SyncDelay'' = Inr (syncDelay t)"
    unfolding getOptionalValueInteger_def traveler_elem_def
    by (rule opt_read[OF _ _ v(2)]) (simp_all add: traveler_kids_def split: option.splits)
  have pw: "getOptionalValueFloat (traveler_elem t) ''Power'' = Inr (power t)"
    unfolding getOptionalValueFloat_def traveler_elem_def
    by (rule opt_read[OF _ _ v(3)]) (simp_all add: traveler_kids_def split: option.splits)
  have sp: "getOptionalValueFloat (traveler_elem t) ''SpotSize'' = Inr (spotSize t)"
    unfolding getOptionalValueFloat_def traveler_elem_def
    by (rule opt_read[OF _ _ v(4)]) (simp_all add: traveler_kids_def split: option.splits)
  from assms have a: "\<not> truthy (power t) \<or> js_ge (the (power t)) 0"
    by (cases "power t") (auto simp: validTraveler_def isOpt_def)
  from assms have wn: "wobble t = None" by (simp add: validTraveler_def)
  show ?thesis
    using a wn by (simp add: getTraveler_def w i sd pw sp)
qed

lemmas kids_defs = header_kids_def traveler_kids_def traveler_nodes_def style_kids_def
  style_nodes_def profile_kids_def profile_nodes_def segment_kids_def segment_nodes_def
  path_kids_def path_nodes_def trajectory_kids_def trajectory_nodes_def layer_kids_def

lemma find_travelers: "findTag ''Traveler'' (style_kids s) = map traveler_elem (travelers s)"
  by (simp add: kids_defs traveler_elem_def split: option.splits)

lemma decode_style:
  assumes "validSegmentStyle s"
  shows "getSegmentStyle (style_elem s) = Inr s"
proof -
  from assms have v: "valid_for None (ss_ID s)" "valid_for None (velocityProfileID s)"
    by (auto simp: validSegmentStyle_def intro: valid_for_intros)
  from assms have lmv: "isOpt (valid_for None) (laserMode s)"
    by (cases "laserMode s")
       (auto simp: validSegmentStyle_def isOpt_def textual_lits intro!: valid_for_intros
          split: if_splits)
  have tv: "getElementsByTagName (style_elem s) ''Traveler'' = map traveler_elem (travelers s)"
    by (simp add: style_elem_def getElementsByTagName_find find_travelers)
  from assms have "\<And>x. x \<in> set (travelers s) \<Longrightarrow> getTraveler (traveler_elem x) = Inr x"
    by (auto simp: validSegmentStyle_def list_all_iff intro: decode_traveler)
  then have ts: "forEach getTraveler (map traveler_elem (travelers s)) = Inr (travelers s)"
    by (rule forEach_decode)
  have i: "getMandatoryValueString (style_elem s) ''ID'' = Inr (ss_ID s)"
    unfolding getMandatoryValueString_def style_elem_def
    by (rule mand_read[OF _ _ v(1)]) (simp_all add: kids_defs split: option.splits)
  have vp: "getMandatoryValueString (style_elem s) ''VelocityProfileID'' = Inr (velocityProfileID s)"
    unfolding getMandatoryValueString_def style_elem_def
    by (rule mand_read[OF _ _ v(2)]) (simp_all add: kids_defs split: option.splits)
  have lm: "getOptionalValueString (style_elem s) ''LaserMode'' = Inr (laserMode s)"
    unfolding getOptionalValueString_def style_elem_def
    by (rule opt_read[OF _ _ lmv]) (simp_all add: kids_defs split: option.splits)
  from assms have a: "travelers s = [] \<Longrightarrow> laserMode s = None"
    "\<not> truthy (laserMode s) \<or> laserMode s = Some (JString ''Independent'')
       \<or> laserMode s = Some (JString ''FollowMe'')"
    by (cases "laserMode s"; auto simp: validSegmentStyle_def isOpt_def split: if_splits)+
  show ?thesis
    using a by (simp add: getSegmentStyle_def tv ts i vp lm)
qed

lemma decode_profile:
  assumes "validVelocityProfile vp"
  shows "getVelocityProfile (profile_elem vp) = Inr vp"
proof -
  from assms have v: "valid_for None (vp_ID vp)" "valid_for (Some Float) (velocity vp)"
    "valid_for None (mode vp)" "valid_for (Some Float) (laserOnDelay vp)"
    "valid_for (Some Float) (laserOffDelay vp)" "valid_for (Some Float) (jumpDelay vp)"
    "valid_for (Some Float) (markDelay vp)" "valid_for (Some Float) (polygonDelay vp)"
    by (auto simp: validVelocityProfile_def textual_lits intro: valid_for_intros)
  have r: "getMandatoryValueString (profile_elem vp) ''ID'' = Inr (vp_ID vp)"
    "getMandatoryValueFloat (profile_elem vp) ''Velocity'' = Inr (velocity vp)"
    "getMandatoryValueString (profile_elem vp) ''Mode'' = Inr (mode vp)"
    "getMandatoryValueFloat (profile_elem vp) ''LaserOnDelay'' = Inr (laserOnDelay vp)"
    "getMandatoryValueFloat (profile_elem vp) ''LaserOffDelay'' = Inr (laserOffDelay vp)"
    "getMandatoryValueFloat (profile_elem vp) ''JumpDelay'' = Inr (jumpDelay vp)"
    "getMandatoryValueFloat (profile_elem vp) ''MarkDelay'' = Inr (markDelay vp)"
    "getMandatoryValueFloat (profile_elem vp) ''PolygonDelay'' = Inr (polygonDelay vp)"
    unfolding getMandatoryValueString_def getMandatoryValueFloat_def profile_elem_def
    by (rule mand_read[OF _ _ v(1)] mand_read[OF _ _ v(2)] mand_read[OF _ _ v(3)]
          mand_read[OF _ _ v(4)] mand_read[OF _ _ v(5)] mand_read[OF _ _ v(6)]
          mand_read[OF _ _ v(7)] mand_read[OF _ _ v(8)]; simp add: kids_defs)+
  from assms have a: "js_gt (velocity vp) 0" "mode vp = JString ''Delay'' \<or> mode vp = JString ''Auto''"
    by (auto simp: validVelocityProfile_def)
  show ?thesis
    using a by (simp add: getVelocityProfile_def r)
qed

lemma segment_reads:
  assumes "validSegment sg"
  shows "getMandatoryValueFloat (segment_elem sg) ''X'' = Inr (x2 sg)"
    "getMandatoryValueFloat (segment_elem sg) ''Y'' = Inr (y2 sg)"
    "getOptionalValueString (segment_elem sg) ''SegmentID'' = Inr (segmentID sg)"
    "getMandatoryValueString (segment_elem sg) ''SegStyle'' = Inr (segStyle sg)"
proof -
  from assms have v: "valid_for (Some Float) (x2 sg)" "valid_for (Some Float) (y2 sg)"
    "isOpt (valid_for None) (segmentID sg)" "valid_for None (segStyle sg)"
    by (auto simp: validSegment_def intro: valid_for_intros elim!: isOpt_mono)
  show "getMandatoryValueFloat (segment_elem sg) ''X'' = Inr (x2 sg)"
    unfolding getMandatoryValueFloat_def segment_elem_def
    by (rule mand_read[OF _ _ v(1)]) (simp_all add: kids_defs split: option.splits)
  show "getMandatoryValueFloat (segment_elem sg) ''Y'' = Inr (y2 sg)"
    unfolding getMandatoryValueFloat_def segment_elem_def
    by (rule mand_read[OF _ _ v(2)]) (simp_all add: kids_defs split: option.splits)
  show "getOptionalValueString (segment_elem sg) ''SegmentID'' = Inr (segmentID sg)"
    unfolding getOptionalValueString_def segment_elem_def
    by (rule opt_read[OF _ _ v(3)]) (simp_all add: kids_defs split: option.splits)
  show "getMandatoryValueString (segment_elem sg) ''SegStyle'' = Inr (segStyle sg)"
    unfolding getMandatoryValueString_def segment_elem_def
    by (rule mand_read[OF _ _ v(4)]) (simp_all add: kids_defs split: option.splits)
qed

lemma decode_segments:
  "list_all validSegment segs \<Longrightarrow> chained lx ly segs \<Longrightarrow>
   getSegments lx ly (map segment_elem segs) = Inr segs"
proof (induction segs arbitrary: lx ly)
  case Nil then show ?case by simp
next
  case (Cons sg segs)
  from Cons.prems have v: "validSegment sg" and c: "x1 sg = lx" "y1 sg = ly"
    and r: "list_all validSegment segs" "chained (x2 sg) (y2 sg) segs" by simp_all
  from Cons.IH[OF r] segment_reads[OF v] c show ?case by simp
qed

lemma find_segments: "findTag ''Segment'' (path_kids p) = map segment_elem (segments p)"
  by (simp add: kids_defs segment_elem_def split: option.splits)

lemma decode_path:
  assumes "validPath p"
  shows "getPath (path_elem p) = Inr p"
proof -
  from assms obtain s0 rest where s: "segments p = s0 # rest"
    by (cases "segments p") (auto simp: validPath_def)
  from assms s have v: "valid_for None (p_type p)" "valid_for None (p_tag p)"
    "valid_for (Some Integer) (numSegments p)" "valid_for (Some Integer) (skyWritingMode p)"
    "valid_for (Some Float) (x1 s0)" "valid_for (Some Float) (y1 s0)"
    by (auto simp: validPath_def textual_lits intro: valid_for_intros)
  have r: "getMandatoryValueString (path_elem p) ''Type'' = Inr (p_type p)"
    "getMandatoryValueString (path_elem p) ''Tag'' = Inr (p_tag p)"
    "getMandatoryValueInteger (path_elem p) ''NumSegments'' = Inr (numSegments p)"
    "getMandatoryValueInteger (path_elem p) ''SkyWritingMode'' = Inr (skyWritingMode p)"
    unfolding getMandatoryValueString_def getMandatoryValueInteger_def path_elem_def
    by (rule mand_read[OF _ _ v(1)] mand_read[OF _ _ v(2)] mand_read[OF _ _ v(3)]
          mand_read[OF _ _ v(4)]; simp add: kids_defs)+
  let ?start = "Element ''Start''
      (leafN ''        '' ''X'' (ToString (x1 s0)) @ leafN ''        '' ''Y'' (ToString (y1 s0))
       @ [Text ''\<newline>      ''])"
  have st: "getElementsByTagName (path_elem p) ''Start'' = [?start]"
    by (simp add: path_elem_def getElementsByTagName_find kids_defs s split: option.splits)
  have sx: "getMandatoryValueFloat ?start ''X'' = Inr (x1 s0)"
    unfolding getMandatoryValueFloat_def
    by (rule mand_read[OF _ _ v(5)]) simp_all
  have sy: "getMandatoryValueFloat ?start ''Y'' = Inr (y1 s0)"
    unfolding getMandatoryValueFloat_def
    by (rule mand_read[OF _ _ v(6)]) simp_all
  have sg: "getElementsByTagName (path_elem p) ''Segment'' = map segment_elem (segments p)"
    by (simp add: path_elem_def getElementsByTagName_find find_segments)
  from assms s have "getSegments (x1 s0) (y1 s0) (map segment_elem (segments p)) = Inr (segments p)"
    by (intro decode_segments) (auto simp: validPath_def)
  note sgs = this
  from assms have a: "p_type p = JString ''hatch'' \<or> p_type p = JString ''contour''"
    "js_ge (skyWritingMode p) 0 \<and> js_le (skyWritingMode p) 3"
    by (auto simp: validPath_def)
  show ?thesis
    using a by (simp add: getPath_def r st sx sy sg sgs)
qed

lemma find_paths: "findTag ''Path'' (trajectory_kids t) = map path_elem (paths t)"
  by (simp add: kids_defs path_elem_def split: option.splits)

lemma decode_trajectory:
  assumes "validTrajectory t"
  shows "getTrajectory (trajectory_elem t) = Inr t"
proof -
  from assms have v: "valid_for None (trajectoryID t)" "valid_for None (pathProcessingMode t)"
    by (auto simp: validTrajectory_def textual_lits intro: valid_for_intros)
  have ps: "getElementsByTagName (trajectory_elem t) ''Path'' = map path_elem (paths t)"
    by (simp add: trajectory_elem_def getElementsByTagName_find find_paths)
  from assms have "\<And>x. x \<in> set (paths t) \<Longrightarrow> getPath (path_elem x) = Inr x"
    by (auto simp: validTrajectory_def list_all_iff intro: decode_path)
  then have dp: "forEach getPath (map path_elem (paths t)) = Inr (paths t)"
    by (rule forEach_decode)
  have r: "getMandatoryValueString (trajectory_elem t) ''TrajectoryID'' = Inr (trajectoryID t)"
    "getMandatoryValueString (trajectory_elem t) ''PathProcessingMode'' = Inr (pathProcessingMode t)"
    unfolding getMandatoryValueString_def trajectory_elem_def
    by (rule mand_read[OF _ _ v(1)] mand_read[OF _ _ v(2)]; simp add: kids_defs)+
  from assms have a: "pathProcessingMode t = JString ''sequential''
      \<or> pathProcessingMode t = JString ''concurrent''"
    by (auto simp: validTrajectory_def)
  show ?thesis
    using a by (simp add: getTrajectory_def ps dp r)
qed

lemma doc_find:
  "t \<noteq> ''*'' \<Longrightarrow> t \<noteq> ''Layer'' \<Longrightarrow>
   getElementsByTagName (document_of L) t = findTag t (layer_kids L)"
  by (simp add: document_of_def getElementsByTagName_find)

lemma decode_header:
  assumes "validHeader (header L)"
  shows "getHeader (document_of L) = Inr (header L)"
proof -
  let ?h = "header L"
  from assms have v: "valid_for None (americaMakesSchemaVersion ?h)"
    "isOpt (valid_for (Some Integer)) (layerNum ?h)" "valid_for (Some Float) (layerThickness ?h)"
    "isOpt (valid_for (Some Float)) (absoluteHeight ?h)"
    "isOpt (valid_for (Some Float)) (dosingFactor ?h)"
    "isOpt (valid_for None) (buildDescription ?h)"
    by (auto simp: validHeader_def intro: valid_for_intros valid_for_date elim!: isOpt_mono)
  have r: "getMandatoryValueString (document_of L) ''AmericaMakesSchemaVersion''
        = Inr (americaMakesSchemaVersion ?h)"
    "getMandatoryValueFloat (document_of L) ''LayerThickness'' = Inr (layerThickness ?h)"
    unfolding getMandatoryValueString_def getMandatoryValueFloat_def document_of_def
    by (rule mand_read[OF _ _ v(1)] mand_read[OF _ _ v(3)]; simp add: kids_defs)+
  have o: "getOptionalValueInteger (document_of L) ''LayerNum'' = Inr (layerNum ?h)"
    "getOptionalValueFloat (document_of L) ''AbsoluteHeight'' = Inr (absoluteHeight ?h)"
    "getOptionalValueFloat (document_of L) ''DosingFactor'' = Inr (dosingFactor ?h)"
    "getOptionalValueString (document_of L) ''BuildDescription'' = Inr (buildDescription ?h)"
    unfolding getOptionalValueInteger_def getOptionalValueFloat_def getOptionalValueString_def
      document_of_def
    by (rule opt_read[OF _ _ v(2)] opt_read[OF _ _ v(4)] opt_read[OF _ _ v(5)]
          opt_read[OF _ _ v(6)]; simp add: kids_defs)+
  from assms have d: "dateRegex (ToString (americaMakesSchemaVersion ?h))"
    by (auto simp: validHeader_def isDate_def split: jsval.splits)
  from assms have a: "js_gt (layerThickness ?h) 0"
    "\<not> truthy (absoluteHeight ?h) \<or> js_gt (the (absoluteHeight ?h)) 0"
    "\<not> truthy (dosingFactor ?h) \<or> js_gt (the (dosingFactor ?h)) 0"
    by (cases "absoluteHeight ?h"; cases "dosingFactor ?h"; auto simp: validHeader_def isOpt_def)+
  show ?thesis
    using d a by (simp add: getHeader_def r o)
qed

lemma decode_styles:
  assumes "list_all validSegmentStyle (segmentStyles L)"
  shows "getSegmentStyles (document_of L) = Inr (segmentStyles L)"
proof -
  have f: "getElementsByTagName (document_of L) ''SegmentStyle'' = map style_elem (segmentStyles L)"
    by (simp add: doc_find kids_defs style_elem_def)
  from assms have "\<And>x. x \<in> set (segmentStyles L) \<Longrightarrow> getSegmentStyle (style_elem x) = Inr x"
    by (auto simp: list_all_iff intro: decode_style)
  then show ?thesis
    unfolding getSegmentStyles_def f by (rule forEach_decode)
qed

lemma decode_profiles:
  assumes "list_all validVelocityProfile (velocityProfiles L)"
  shows "getVelocityProfiles (document_of L) = Inr (velocityProfiles L)"
proof -
  have f: "getElementsByTagName (document_of L) ''VelocityProfile''
      = map profile_elem (velocityProfiles L)"
    by (simp add: doc_find kids_defs profile_elem_def)
  from assms have "\<And>x. x \<in> set (velocityProfiles L) \<Longrightarrow> getVelocityProfile (profile_elem x) = Inr x"
    by (auto simp: list_all_iff intro: decode_profile)
  then show ?thesis
    unfolding getVelocityProfiles_def f by (rule forEach_decode)
qed

lemma decode_trajectories:
  assumes "list_all validTrajectory (trajectories L)"
  shows "getTrajectories (document_of L) = Inr (trajectories L)"
proof -
  have f: "getElementsByTagName (document_of L) ''Trajectory''
      = map trajectory_elem (trajectories L)"
    by (simp add: doc_find kids_defs trajectory_elem_def)
  from assms have "\<And>x. x \<in> set (trajectories L) \<Longrightarrow> getTrajectory (trajectory_elem x) = Inr x"
    by (auto simp: list_all_iff intro: decode_trajectory)
  then show ?thesis
    unfolding getTrajectories_def f by (rule forEach_decode)
qed

lemma decode_document:
  assumes "validLayer L"
  shows "LoadDocument (document_of L) = Inr L"
  using assms
  by (simp add: LoadDocument_def validLayer_def decode_header decode_styles decode_profiles
      decode_trajectories)

lemma c1_layer_valid: "validLayer c1_layer"
  by code_simp

section \<open>The claims\<close>

text \<open>
  C2. The claim: when a field accessor returns a value for the kind integer or float,
  the value is the number the text denotes, not the text. The code validates the text,
  calls \<^verbatim>\<open>cast\<close> and drops what it returns, and returns \<^verbatim>\<open>node.textContent\<close>: no
  accessor ever returns a number, and on \<^verbatim>\<open><LayerNum>5</LayerNum>\<close> the mandatory
  accessor returns the string \<^verbatim>\<open>"5"\<close> where \<^verbatim>\<open>cast\<close> computes the number 5.
\<close>

theorem accessor_returns_text:
  "getMandatoryValue nd t ty \<noteq> Inr (JNumber q) \<and>
   getOptionalValue nd t ty \<noteq> Inr (Some (JNumber q)) \<and>
   getMandatoryValue c2_node ''LayerNum'' (Some Integer) = Inr (JString ''5'') \<and>
   cast ''5'' (Some Integer) = Some (JNumber 5) \<and>
   getOptionalValue c2_node ''LayerThickness'' (Some Float) = Inr (Some (JString ''0.5'')) \<and>
   cast ''0.5'' (Some Float) = Some (JNumber (1 / 2))"
proof -
  have a: "getMandatoryValue nd t ty \<noteq> Inr (JNumber q)"
    using getMandatoryValue_Inr[of nd t ty "JNumber q"] by auto
  have b: "getOptionalValue nd t ty \<noteq> Inr (Some (JNumber q))"
    using getOptionalValue_Inr[of nd t ty "Some (JNumber q)"] by auto
  have c: "getMandatoryValue c2_node ''LayerNum'' (Some Integer) = Inr (JString ''5'')"
    by (simp add: c2_node_def eval_defs)
  have d: "cast ''5'' (Some Integer) = Some (JNumber 5)"
    by (simp add: eval_defs)
  have e: "getOptionalValue c2_node ''LayerThickness'' (Some Float) = Inr (Some (JString ''0.5''))"
    by (simp add: c2_node_def eval_defs)
  have f: "cast ''0.5'' (Some Float) = Some (JNumber (1 / 2))"
    by (simp add: eval_defs)
  from a b c d e f show ?thesis by blast
qed

theorem accessor_returns_text_witness:
  "getMandatoryValue c2_node ''LayerNum'' (Some Integer) \<noteq> Inr (JNumber 5) \<and>
   getOptionalValue c2_node ''LayerNum'' (Some Integer) \<noteq> Inr (Some (JNumber 5))"
  using accessor_returns_text[of c2_node "''LayerNum''" "Some Integer" 5] by blast




text \<open>
  C3. Cursor chaining. When a Path element decodes, its segments are those of the
  \<^verbatim>\<open>Segment\<close> elements below it in document order (its \<^verbatim>\<open>Segment\<close> children in
  the layout of the schema), one each; the first runs from the point of the \<^verbatim>\<open>Start\<close>
  element, every later one from the end point of the segment before it, and each ends
  at the X and Y its own element declares. The witness is the path with Start (0,0) and
  segments ending at (1,1) and (2,2), which decodes to (0,0)-(1,1), (1,1)-(2,2); the
  coordinates are the strings of the document (see C2).
\<close>

theorem path_segments_chain:
  assumes "getPath pathXML = Inr p"
  shows "\<exists>start more sx sy.
           getElementsByTagName pathXML ''Start'' = start # more \<and>
           getMandatoryValueFloat start ''X'' = Inr sx \<and>
           getMandatoryValueFloat start ''Y'' = Inr sy \<and>
           length (segments p) = length (getElementsByTagName pathXML ''Segment'') \<and>
           (\<forall>i<length (getElementsByTagName pathXML ''Segment'').
              x1 (segments p ! i) = (if i = 0 then sx else x2 (segments p ! (i - 1))) \<and>
              y1 (segments p ! i) = (if i = 0 then sy else y2 (segments p ! (i - 1))) \<and>
              getMandatoryValueFloat (getElementsByTagName pathXML ''Segment'' ! i) ''X''
                = Inr (x2 (segments p ! i)) \<and>
              getMandatoryValueFloat (getElementsByTagName pathXML ''Segment'' ! i) ''Y''
                = Inr (y2 (segments p ! i)))"
proof (cases "getElementsByTagName pathXML ''Start''")
  case Nil
  with assms show ?thesis
    unfolding getPath_def by (auto simp: andThen_eq_Inr Let_def)
next
  case (Cons start more)
  with assms obtain sx sy segs where
    sx: "getMandatoryValueFloat start ''X'' = Inr sx"
    and sy: "getMandatoryValueFloat start ''Y'' = Inr sy"
    and sg: "getSegments sx sy (getElementsByTagName pathXML ''Segment'') = Inr segs"
    and p: "segments p = segs"
    unfolding getPath_def by (auto simp: andThen_eq_Inr Let_def)
  from getSegments_chain[OF sg] p Cons sx sy show ?thesis by blast
qed

theorem path_segments_chain_witness:
  "getPath example_path = Inr example_path_decoded \<and>
   map (\<lambda>s. ((x1 s, y1 s), (x2 s, y2 s))) (segments example_path_decoded)
     = [((JString ''0'', JString ''0''), (JString ''1'', JString ''1'')),
        ((JString ''1'', JString ''1''), (JString ''2'', JString ''2''))] \<and>
   (\<exists>start more sx sy.
           getElementsByTagName example_path ''Start'' = start # more \<and>
           getMandatoryValueFloat start ''X'' = Inr sx \<and>
           getMandatoryValueFloat start ''Y'' = Inr sy \<and>
           length (segments example_path_decoded) = length (getElementsByTagName example_path ''Segment'') \<and>
           (\<forall>i<length (getElementsByTagName example_path ''Segment'').
              x1 (segments example_path_decoded ! i)
                = (if i = 0 then sx else x2 (segments example_path_decoded ! (i - 1))) \<and>
              y1 (segments example_path_decoded ! i)
                = (if i = 0 then sy else y2 (segments example_path_decoded ! (i - 1))) \<and>
              getMandatoryValueFloat (getElementsByTagName example_path ''Segment'' ! i) ''X''
                = Inr (x2 (segments example_path_decoded ! i)) \<and>
              getMandatoryValueFloat (getElementsByTagName example_path ''Segment'' ! i) ''Y''
                = Inr (y2 (segments example_path_decoded ! i))))"
proof (intro conjI)
  show "getPath example_path = Inr example_path_decoded" by (rule example_path_decodes)
  show "map (\<lambda>s. ((x1 s, y1 s), (x2 s, y2 s))) (segments example_path_decoded)
     = [((JString ''0'', JString ''0''), (JString ''1'', JString ''1'')),
        ((JString ''1'', JString ''1''), (JString ''2'', JString ''2''))]"
    by (simp add: example_path_decoded_def)
  show "\<exists>start more sx sy.
           getElementsByTagName example_path ''Start'' = start # more \<and>
           getMandatoryValueFloat start ''X'' = Inr sx \<and>
           getMandatoryValueFloat start ''Y'' = Inr sy \<and>
           length (segments example_path_decoded) = length (getElementsByTagName example_path ''Segment'') \<and>
           (\<forall>i<length (getElementsByTagName example_path ''Segment'').
              x1 (segments example_path_decoded ! i)
                = (if i = 0 then sx else x2 (segments example_path_decoded ! (i - 1))) \<and>
              y1 (segments example_path_decoded ! i)
                = (if i = 0 then sy else y2 (segments example_path_decoded ! (i - 1))) \<and>
              getMandatoryValueFloat (getElementsByTagName example_path ''Segment'' ! i) ''X''
                = Inr (x2 (segments example_path_decoded ! i)) \<and>
              getMandatoryValueFloat (getElementsByTagName example_path ''Segment'' ! i) ''Y''
                = Inr (y2 (segments example_path_decoded ! i)))"
    by (rule path_segments_chain[OF example_path_decodes])
qed

text \<open>
  C8. A decoded trajectory holds one path for every \<^verbatim>\<open>Path\<close> element below the
  Trajectory element, in document order: the list of paths is as long as the list of
  elements, and its i-th entry is the decoding of the i-th element.
\<close>

theorem trajectory_keeps_every_path:
  assumes "getTrajectory trajectoryXML = Inr tr"
  shows "length (paths tr) = length (getElementsByTagName trajectoryXML ''Path'') \<and>
         (\<forall>i<length (getElementsByTagName trajectoryXML ''Path'').
            getPath (getElementsByTagName trajectoryXML ''Path'' ! i) = Inr (paths tr ! i))"
proof -
  from assms have "forEach getPath (getElementsByTagName trajectoryXML ''Path'') = Inr (paths tr)"
    unfolding getTrajectory_def by (auto simp: andThen_eq_Inr Let_def)
  from forEach_Inr[OF this] show ?thesis .
qed

theorem trajectory_keeps_every_path_witness:
  "getTrajectory example_trajectory = Inr example_trajectory_decoded \<and>
   length (getElementsByTagName example_trajectory ''Path'') = 2 \<and>
   length (paths example_trajectory_decoded) = 2 \<and>
   getPath (getElementsByTagName example_trajectory ''Path'' ! 0)
     = Inr (paths example_trajectory_decoded ! 0) \<and>
   getPath (getElementsByTagName example_trajectory ''Path'' ! 1)
     = Inr (paths example_trajectory_decoded ! 1)"
proof -
  have n: "length (getElementsByTagName example_trajectory ''Path'') = 2"
    by (simp add: example_trajectory_def example_path_def getElementsByTagName_def descendants_def)
  note t = trajectory_keeps_every_path[OF example_trajectory_decodes]
  from t n have l: "length (paths example_trajectory_decoded) = 2" by simp
  from t n have p0: "getPath (getElementsByTagName example_trajectory ''Path'' ! 0)
     = Inr (paths example_trajectory_decoded ! 0)" by simp
  from t n have p1: "getPath (getElementsByTagName example_trajectory ''Path'' ! 1)
     = Inr (paths example_trajectory_decoded ! 1)" by simp
  from example_trajectory_decodes n l p0 p1 show ?thesis by blast
qed




text \<open>
  C4. The claim: a SegmentStyle with a Traveler and no \<^verbatim>\<open>LaserMode\<close> tag is rejected.
  The code reads \<^verbatim>\<open>LaserMode\<close> with the optional accessor, under the comment
  "Required if a Traveler exists", so such a style decodes with \<^verbatim>\<open>laserMode\<close>
  absent: here a style with one traveler and no \<^verbatim>\<open>LaserMode\<close>, alone and inside a
  whole document.
\<close>

theorem laserMode_not_required:
  "length (getElementsByTagName c4_style ''Traveler'') = 1 \<and>
   getElementsByTagName c4_style ''LaserMode'' = [] \<and>
   getSegmentStyle c4_style = Inr c4_decoded \<and>
   LoadDocument c4_doc =
     Inr \<lparr> header = \<lparr> americaMakesSchemaVersion = JString ''2020-03-23'', layerNum = None,
                       layerThickness = JString ''0.5'', absoluteHeight = None,
                       dosingFactor = None, buildDescription = None \<rparr>,
           velocityProfiles = [], segmentStyles = [c4_decoded], trajectories = [] \<rparr>"
proof (intro conjI)
  show "length (getElementsByTagName c4_style ''Traveler'') = 1"
    by (simp add: c4_style_def getElementsByTagName_def descendants_def)
  show "getElementsByTagName c4_style ''LaserMode'' = []"
    by (simp add: c4_style_def getElementsByTagName_def descendants_def)
  show "getSegmentStyle c4_style = Inr c4_decoded"
    by (simp add: c4_style_def c4_decoded_def decoder_defs eval_defs)
  show "LoadDocument c4_doc =
     Inr \<lparr> header = \<lparr> americaMakesSchemaVersion = JString ''2020-03-23'', layerNum = None,
                       layerThickness = JString ''0.5'', absoluteHeight = None,
                       dosingFactor = None, buildDescription = None \<rparr>,
           velocityProfiles = [], segmentStyles = [c4_decoded], trajectories = [] \<rparr>"
    by (simp add: c4_doc_def c4_style_def c4_decoded_def decoder_defs eval_defs)
qed

theorem laserMode_not_required_witness:
  "succeeds (getSegmentStyle c4_style) \<and> succeeds (LoadDocument c4_doc)"
  using laserMode_not_required by simp

text \<open>
  C6. The claim: a Traveler with a \<^verbatim>\<open>Wobble\<close> element decodes to a traveler holding
  the five wobble values. In the code no \<^verbatim>\<open>Wobble\<close> element decodes: the accessor
  returns strings, and the assertion \<^verbatim>\<open>wobble.on === 0 || wobble.on === 1\<close> compares
  them with numbers. So every traveler with a \<^verbatim>\<open>Wobble\<close> element is rejected, and
  every decoded traveler has no wobble (the loop's \<^verbatim>\<open>wobble\<close> is never assigned).
\<close>

theorem wobble_never_decoded:
  "\<not> succeeds (getWobble wobbleElem) \<and>
   (getElementsByTagName travelerXML ''Wobble'' \<noteq> [] \<longrightarrow> \<not> succeeds (getTraveler travelerXML)) \<and>
   (getTraveler travelerXML = Inr tv \<longrightarrow> wobble tv = None) \<and>
   getTraveler c6_traveler = Inl (AssertionError ''INVALID SCHEMA: Wobble On must be 0 or 1!'')"
proof (intro conjI impI)
  show "\<not> succeeds (getWobble wobbleElem)" by (rule getWobble_fails)
next
  assume "getElementsByTagName travelerXML ''Wobble'' \<noteq> []"
  then obtain w ws where w: "getElementsByTagName travelerXML ''Wobble'' = w # ws"
    by (cases "getElementsByTagName travelerXML ''Wobble''") auto
  from getWobble_fails[of w] obtain e where "getWobble w = Inl e"
    by (cases "getWobble w") auto
  with w show "\<not> succeeds (getTraveler travelerXML)"
    by (simp add: getTraveler_def)
next
  assume "getTraveler travelerXML = Inr tv"
  then show "wobble tv = None"
    unfolding getTraveler_def
    by (auto simp: andThen_eq_Inr Let_def split: list.splits)
next
  show "getTraveler c6_traveler = Inl (AssertionError ''INVALID SCHEMA: Wobble On must be 0 or 1!'')"
    by (simp add: c6_traveler_def c7_wobble_def decoder_defs eval_defs)
qed

theorem wobble_never_decoded_witness:
  "getElementsByTagName c6_traveler ''Wobble'' \<noteq> [] \<and> \<not> succeeds (getTraveler c6_traveler) \<and>
   \<not> succeeds (getWobble (c7_wobble ''1'' ''0''))"
proof -
  have a: "getElementsByTagName c6_traveler ''Wobble'' \<noteq> []"
    by (simp add: c6_traveler_def c7_wobble_def getElementsByTagName_def descendants_def)
  with wobble_never_decoded[of "c7_wobble ''1'' ''0''" c6_traveler] show ?thesis by blast
qed

text \<open>
  C7. The claim: a Wobble decodes for the shapes -1, 0 and 1. The code rejects all
  three: \<^verbatim>\<open>-1\<close> fails the integer pattern, which has no sign, and 0 and 1 fail with
  the other assertion of the block (on either value of \<^verbatim>\<open>On\<close>) before the shape is
  looked at; the shape assertion itself, \<^verbatim>\<open>shape >= -1 && shape <= -1\<close>, is false
  for 0 and 1, as strings and as numbers.
\<close>

theorem wobble_shape_rejected:
  "getWobble (c7_wobble ''1'' ''-1'') = Inl (AssertionError ''Shape must be an integer'') \<and>
   getWobble (c7_wobble ''1'' ''0'')
     = Inl (AssertionError ''INVALID SCHEMA: Wobble On must be 0 or 1!'') \<and>
   getWobble (c7_wobble ''1'' ''1'')
     = Inl (AssertionError ''INVALID SCHEMA: Wobble On must be 0 or 1!'') \<and>
   getWobble (c7_wobble ''0'' ''0'')
     = Inl (AssertionError ''INVALID SCHEMA: Wobble On must be 0 or 1!'') \<and>
   \<not> (js_ge (JString ''0'') (- 1) \<and> js_le (JString ''0'') (- 1)) \<and>
   \<not> (js_ge (JString ''1'') (- 1) \<and> js_le (JString ''1'') (- 1)) \<and>
   \<not> (js_ge (JNumber 0) (- 1) \<and> js_le (JNumber 0) (- 1)) \<and>
   \<not> (js_ge (JNumber 1) (- 1) \<and> js_le (JNumber 1) (- 1)) \<and>
   \<not> isIntegerRegex ''-1''"
proof (intro conjI)
  show "getWobble (c7_wobble ''1'' ''-1'') = Inl (AssertionError ''Shape must be an integer'')"
    by (simp add: c7_wobble_def decoder_defs eval_defs)
  show "getWobble (c7_wobble ''1'' ''0'')
     = Inl (AssertionError ''INVALID SCHEMA: Wobble On must be 0 or 1!'')"
    by (simp add: c7_wobble_def decoder_defs eval_defs)
  show "getWobble (c7_wobble ''1'' ''1'')
     = Inl (AssertionError ''INVALID SCHEMA: Wobble On must be 0 or 1!'')"
    by (simp add: c7_wobble_def decoder_defs eval_defs)
  show "getWobble (c7_wobble ''0'' ''0'')
     = Inl (AssertionError ''INVALID SCHEMA: Wobble On must be 0 or 1!'')"
    by (simp add: c7_wobble_def decoder_defs eval_defs)
  show "\<not> (js_ge (JString ''0'') (- 1) \<and> js_le (JString ''0'') (- 1))"
    by (simp add: eval_defs)
  show "\<not> (js_ge (JString ''1'') (- 1) \<and> js_le (JString ''1'') (- 1))"
    by (simp add: eval_defs)
  show "\<not> (js_ge (JNumber 0) (- 1) \<and> js_le (JNumber 0) (- 1))"
    by (simp add: eval_defs)
  show "\<not> (js_ge (JNumber 1) (- 1) \<and> js_le (JNumber 1) (- 1))"
    by (simp add: eval_defs)
  show "\<not> isIntegerRegex ''-1''"
    by (simp add: eval_defs)
qed




theorem wobble_shape_rejected_witness:
  "\<not> succeeds (getWobble (c7_wobble ''1'' ''-1'')) \<and>
   \<not> succeeds (getWobble (c7_wobble ''1'' ''0'')) \<and>
   \<not> succeeds (getWobble (c7_wobble ''1'' ''1''))"
  using wobble_shape_rejected by simp




end
